theory Spec2Isabelle
  imports Main "HOL-Library.AList"
begin

section \<open>JavaScript and Python values\<close>

text \<open>
  The values that cross the JavaScript / Python boundary. JavaScript numbers are taken
  to be integers (fractions, infinities and NaN are left out); strings are lists of
  8-bit characters. An object is the list of its own properties in creation order.
\<close>

datatype jsval =
    Undefined
  | Null
  | Bool bool
  | Num int
  | Str string
  | Arr "jsval list"
  | Obj "(string \<times> jsval) list"

datatype pyval =
    PyNone
  | PyBool bool
  | PyInt int
  | PyStr string
  | PyBytes "nat list"
  | PyList "pyval list"
  | PyDict "(string \<times> pyval) list"

datatype py_error =
    ModuleNotFoundError
  | NameError
  | AttributeError
  | PyTypeError
  | Raised string

datatype js_error =
    TypeError
  | SyntaxError
  | NetworkError
  | PythonError py_error

text \<open>JavaScript truthiness, and \<open>a || b\<close>.\<close>

fun truthy :: "jsval \<Rightarrow> bool" where
  "truthy Undefined = False"
| "truthy Null = False"
| "truthy (Bool b) = b"
| "truthy (Num n) = (n \<noteq> 0)"
| "truthy (Str s) = (s \<noteq> [])"
| "truthy (Arr xs) = True"
| "truthy (Obj kvs) = True"

definition js_or :: "jsval \<Rightarrow> jsval \<Rightarrow> jsval" where
  "js_or a b = (if truthy a then a else b)"

text \<open>
  The order in which JavaScript lists the own keys of an object: the keys that are array
  indices (canonical decimal numerals below \<open>2^32 - 1\<close>) first, in ascending numeric
  order, then the other keys in creation order.
\<close>

definition is_digit :: "char \<Rightarrow> bool" where
  "is_digit c = (c \<in> set ''0123456789'')"

definition dec_value :: "string \<Rightarrow> nat" where
  "dec_value s = foldl (\<lambda>acc c. 10 * acc + (of_char c - 48)) 0 s"

definition is_array_index :: "string \<Rightarrow> bool" where
  "is_array_index s =
     (s \<noteq> [] \<and> list_all is_digit s \<and> (s = ''0'' \<or> hd s \<noteq> CHR ''0'') \<and>
      dec_value s < 2 ^ 32 - 1)"

definition js_key_order :: "(string \<times> 'a) list \<Rightarrow> (string \<times> 'a) list" where
  "js_key_order kvs =
     sort_key (\<lambda>kv. dec_value (fst kv)) (filter (\<lambda>kv. is_array_index (fst kv)) kvs) @
     filter (\<lambda>kv. \<not> is_array_index (fst kv)) kvs"

text \<open>
  Pyodide's conversion of a JavaScript value to Python (\<open>pyodide.toPy\<close>, and the
  implicit conversion of primitives by \<open>globals.set\<close>). An object becomes a dictionary
  of its entries in the order JavaScript lists them.
\<close>

primrec toPy :: "jsval \<Rightarrow> pyval" where
  "toPy Undefined = PyNone"
| "toPy Null = PyNone"
| "toPy (Bool b) = PyBool b"
| "toPy (Num n) = PyInt n"
| "toPy (Str s) = PyStr s"
| "toPy (Arr xs) = PyList (map toPy xs)"
| "toPy (Obj kvs) = PyDict (js_key_order (map (map_prod id toPy) kvs))"

text \<open>
  \<open>json.dumps\<close> on the Python side followed by \<open>JSON.parse\<close> on the JavaScript
  side, as one step: the text in between is not modelled. Bytes are not serialisable,
  so \<open>json.dumps\<close> raises a Python TypeError on them.
\<close>

fun json_dumps_parse :: "pyval \<Rightarrow> py_error + jsval"
  and dumps_list :: "pyval list \<Rightarrow> py_error + jsval list"
  and dumps_items :: "(string \<times> pyval) list \<Rightarrow> py_error + (string \<times> jsval) list" where
  "json_dumps_parse PyNone = Inr Null"
| "json_dumps_parse (PyBool b) = Inr (Bool b)"
| "json_dumps_parse (PyInt n) = Inr (Num n)"
| "json_dumps_parse (PyStr s) = Inr (Str s)"
| "json_dumps_parse (PyBytes bs) = Inl PyTypeError"
| "json_dumps_parse (PyList xs) =
     (case dumps_list xs of Inl e \<Rightarrow> Inl e | Inr ys \<Rightarrow> Inr (Arr ys))"
| "json_dumps_parse (PyDict kvs) =
     (case dumps_items kvs of Inl e \<Rightarrow> Inl e | Inr ws \<Rightarrow> Inr (Obj ws))"
| "dumps_list [] = Inr []"
| "dumps_list (x # xs) =
     (case json_dumps_parse x of
        Inl e \<Rightarrow> Inl e
      | Inr y \<Rightarrow> (case dumps_list xs of Inl e \<Rightarrow> Inl e | Inr ys \<Rightarrow> Inr (y # ys)))"
| "dumps_items [] = Inr []"
| "dumps_items ((k, v) # kvs) =
     (case json_dumps_parse v of
        Inl e \<Rightarrow> Inl e
      | Inr w \<Rightarrow> (case dumps_items kvs of Inl e \<Rightarrow> Inl e | Inr ws \<Rightarrow> Inr ((k, w) # ws)))"

text \<open>
  The engine entry point \<open>build_all\<close> is Python code of \<open>engine_pyodide.py\<close>,
  which the front ends load at run time: it is a parameter here, a function from the
  positional arguments of the call to the returned value or the exception raised.
\<close>

type_synonym engine = "pyval list \<Rightarrow> py_error + pyval"

text \<open>What executing a module's source text defines: \<open>build_all\<close>, or not.\<close>

datatype pymodule = PyModule (build_all_attr: "engine option")

type_synonym upload = "string \<times> nat list"

section \<open>app.js\<close>

subsection \<open>The target date\<close>

text \<open>The white space \<open>String.prototype.trim\<close> strips, among 8-bit characters.\<close>

definition is_js_space :: "char \<Rightarrow> bool" where
  "is_js_space c =
     (c \<in> set [CHR 0x09, CHR 0x0A, CHR 0x0B, CHR 0x0C, CHR 0x0D, CHR 0x20, CHR 0xA0])"

definition trim :: "string \<Rightarrow> string" where
  "trim s = rev (dropWhile is_js_space (rev (dropWhile is_js_space s)))"

text \<open>
  The regular expression \<open>/^(\d{2})\/(\d{2})\/(\d{4})$/\<close>: a sequence of parts, each a
  run of one-character atoms, captured or not, anchored at both ends of the input.
\<close>

datatype re_atom = Digit | Lit char

datatype re_part = Group "re_atom list" | Plain "re_atom list"

fun atom_ok :: "re_atom \<Rightarrow> char \<Rightarrow> bool" where
  "atom_ok Digit c = is_digit c"
| "atom_ok (Lit l) c = (c = l)"

fun match_atoms :: "re_atom list \<Rightarrow> string \<Rightarrow> (string \<times> string) option" where
  "match_atoms [] s = Some ([], s)"
| "match_atoms (a # as) [] = None"
| "match_atoms (a # as) (c # cs) =
     (if atom_ok a c
      then (case match_atoms as cs of None \<Rightarrow> None | Some (m, r) \<Rightarrow> Some (c # m, r))
      else None)"

fun match_parts :: "re_part list \<Rightarrow> string \<Rightarrow> string list option" where
  "match_parts [] s = (if s = [] then Some [] else None)"
| "match_parts (Group as # ps) s =
     (case match_atoms as s of
        None \<Rightarrow> None
      | Some (m, r) \<Rightarrow> (case match_parts ps r of None \<Rightarrow> None | Some gs \<Rightarrow> Some (m # gs)))"
| "match_parts (Plain as # ps) s =
     (case match_atoms as s of None \<Rightarrow> None | Some (m, r) \<Rightarrow> match_parts ps r)"

definition date_re :: "re_part list" where
  "date_re =
     [Group [Digit, Digit], Plain [Lit CHR ''/''], Group [Digit, Digit], Plain [Lit CHR ''/''],
      Group [Digit, Digit, Digit, Digit]]"

text \<open>
  \<open>getTargetDateISO\<close>. The argument is the \<open>#targetDate\<close> element: \<open>None\<close> when the
  page has none, else its value. \<open>None\<close> as result is JavaScript's \<open>null\<close>.
\<close>

definition getTargetDateISO :: "string option \<Rightarrow> string option" where
  "getTargetDateISO dateEl =
     (let raw = trim (case dateEl of None \<Rightarrow> [] | Some v \<Rightarrow> v)
      in case match_parts date_re raw of
           Some [dd, mm, yyyy] \<Rightarrow> Some (yyyy @ ''-'' @ mm @ ''-'' @ dd)
         | _ \<Rightarrow> None)"

text \<open>\<open>getTargetDateISO() || ""\<close>: a null or empty result becomes the empty string.\<close>

definition target_date_py :: "string option \<Rightarrow> string" where
  "target_date_py dateEl =
     (case getTargetDateISO dateEl of None \<Rightarrow> [] | Some d \<Rightarrow> if d = [] then [] else d)"


subsection \<open>Page state and the Python runtime\<close>

text \<open>
  The in-browser Python runtime Pyodide gives: its file system (path to text) and
  \<open>sys.modules\<close>. How Python finds and executes a module is not part of the
  repository: \<open>sys_path\<close> is the list of directories searched, and \<open>exec_module\<close>
  says what executing a source text defines and the exception it raises, if any.
\<close>

record py_runtime =
  fs :: "string \<rightharpoonup> string"
  sys_modules :: "string \<rightharpoonup> pymodule"

record py_env =
  sys_path :: "string list"
  exec_module :: "string \<Rightarrow> pymodule \<times> py_error option"

datatype log_msg =
    LoadingPyodide
  | PyodideReady
  | LoadedSettings
  | SettingsNotFound
  | SettingsFetchFailed
  | Building
  | BuiltOK jsval
  | ErrorMsg js_error
  | ResetMsg

datatype alert = SelectCsvs | BuildFailed js_error

datatype console_entry = ConsoleLog jsval | ConsoleError js_error

text \<open>
  Where the asynchronous \<open>boot\<close> function stands: it awaits \<open>loadPyodide\<close>, then
  the fetch of settings.json, and in between the page handles other events.
\<close>

datatype boot_pc = NotStarted | AwaitPyodide | AwaitSettings | BootDone | BootFailed

text \<open>
  The globals of app.js and the parts of the page it touches. \<open>fileInput\<close>,
  \<open>dateEl\<close> and \<open>logEl\<close> are \<open>None\<close> when the page has no such element
  (the code guards each use); \<open>SETTINGS = Null\<close> and \<open>pyodide = None\<close> are the
  initial \<open>null\<close>. \<open>alerts\<close>, \<open>console\<close> and \<open>engine_calls\<close> record what the
  code shows, prints and calls: \<open>engine_calls\<close> holds the positional arguments of every
  call of \<open>build_all\<close>, in order.
\<close>

record app_state =
  SETTINGS :: jsval
  pyodide :: "py_runtime option"
  boot_pc :: boot_pc
  fileInput :: "upload list option"
  dateEl :: "string option"
  logEl :: "log_msg list option"
  alerts :: "alert list"
  console :: "console_entry list"
  engine_calls :: "pyval list list"

text \<open>\<open>log(msg)\<close>; the time stamp in front of each line is left out.\<close>

definition log :: "log_msg \<Rightarrow> app_state \<Rightarrow> app_state" where
  "log msg st =
     (case logEl st of None \<Rightarrow> st | Some ls \<Rightarrow> st\<lparr>logEl := Some (ls @ [msg])\<rparr>)"

subsection \<open>Boot\<close>

datatype fetch_result = FetchOk jsval | FetchOkBadJson | FetchNotOk | FetchRejected

definition engine_path :: string where
  "engine_path = ''/engine_pyodide.py''"

definition placeholder :: string where
  "placeholder = ''REPLACE_WITH_ENGINE_CODE_IF_EMBEDDING''"

definition boot_start :: "app_state \<Rightarrow> app_state" where
  "boot_start st =
     (if boot_pc st = NotStarted then (log LoadingPyodide st)\<lparr>boot_pc := AwaitPyodide\<rparr> else st)"

text \<open>
  \<open>loadPyodide\<close> settles: with a runtime (\<open>Some rt\<close>), or rejected, which ends
  \<open>boot\<close> there.
\<close>

definition boot_pyodide :: "py_runtime option \<Rightarrow> app_state \<Rightarrow> app_state" where
  "boot_pyodide loaded st =
     (if boot_pc st = AwaitPyodide
      then (case loaded of
              None \<Rightarrow> st\<lparr>boot_pc := BootFailed\<rparr>
            | Some rt \<Rightarrow> (log PyodideReady (st\<lparr>pyodide := Some rt\<rparr>))\<lparr>boot_pc := AwaitSettings\<rparr>)
      else st)"

definition writeFile :: "string \<Rightarrow> string \<Rightarrow> py_runtime \<Rightarrow> py_runtime" where
  "writeFile path text rt = rt\<lparr>fs := (fs rt)(path \<mapsto> text)\<rparr>"

text \<open>
  The fetch of settings.json settles; the rest of \<open>boot\<close> runs: the try/catch
  around the fetch, then the write of the module file.
\<close>

definition boot_settings :: "fetch_result \<Rightarrow> app_state \<Rightarrow> app_state" where
  "boot_settings r st =
     (if boot_pc st = AwaitSettings
      then
        (let st1 = (case r of
                      FetchOk v \<Rightarrow> log LoadedSettings (st\<lparr>SETTINGS := v\<rparr>)
                    | FetchNotOk \<Rightarrow> log SettingsNotFound st
                    | FetchOkBadJson \<Rightarrow> log SettingsFetchFailed st
                    | FetchRejected \<Rightarrow> log SettingsFetchFailed st)
         in case pyodide st1 of
              None \<Rightarrow> st1\<lparr>boot_pc := BootFailed\<rparr>
            | Some rt \<Rightarrow>
                st1\<lparr>pyodide := Some (writeFile engine_path placeholder rt), boot_pc := BootDone\<rparr>)
      else st)"


subsection \<open>The build\<close>

text \<open>
  \<open>filesToPyTuples\<close>: a Python list with one (name, bytes) entry per selected
  file, in selection order. Reading a file's bytes is taken to succeed.
\<close>

definition filesToPyTuples :: "upload list \<Rightarrow> pyval" where
  "filesToPyTuples fileList = PyList (map (\<lambda>(n, b). PyList [PyStr n, PyBytes b]) fileList)"

definition settings_py :: "jsval \<Rightarrow> pyval" where
  "settings_py s = (if truthy s then toPy s else toPy Null)"

definition modname :: string where
  "modname = ''engine_pyodide''"

text \<open>
  \<open>os.path.join\<close> of a directory and a file name. With the empty directory it gives
  the bare file name, a path relative to the working directory. Paths are compared as
  texts: the file system is keyed by absolute paths as \<open>FS.writeFile\<close> gets them.
\<close>

definition path_join :: "string \<Rightarrow> string \<Rightarrow> string" where
  "path_join dir file =
     (if dir = [] then file
      else if last dir = CHR ''/'' then dir @ file
      else dir @ ''/'' @ file)"

text \<open>Python's search for a module's source: the first directory of the path that has the file.\<close>

fun find_module :: "string list \<Rightarrow> (string \<rightharpoonup> string) \<Rightarrow> string \<Rightarrow> string option" where
  "find_module [] files m = None"
| "find_module (d # ds) files m =
     (case files (path_join d (m @ ''.py'')) of
        None \<Rightarrow> find_module ds files m
      | Some src \<Rightarrow> Some src)"

text \<open>The source text an import or a reload of \<open>engine_pyodide\<close> finds.\<close>

definition engine_source :: "py_env \<Rightarrow> py_runtime \<Rightarrow> string option" where
  "engine_source env rt = find_module (sys_path env) (fs rt) modname"

text \<open>
  \<open>import engine_pyodide\<close> when the module is not in \<open>sys.modules\<close>: the source is
  found and executed; the module is registered only when that succeeds.
\<close>

definition py_import :: "py_env \<Rightarrow> py_runtime \<Rightarrow> py_runtime \<times> (py_error + pymodule)" where
  "py_import env rt =
     (case engine_source env rt of
        None \<Rightarrow> (rt, Inl ModuleNotFoundError)
      | Some src \<Rightarrow>
          (case exec_module env src of
             (m, Some e) \<Rightarrow> (rt, Inl e)
           | (m, None) \<Rightarrow> (rt\<lparr>sys_modules := (sys_modules rt)(modname \<mapsto> m)\<rparr>, Inr m)))"

text \<open>
  \<open>importlib.reload\<close> of the module already in \<open>sys.modules\<close>: the source is found
  and executed again in the module's own namespace, so a name the new text does not
  define keeps its old value, also when the execution raises part of the way.
\<close>

definition py_reload :: "py_env \<Rightarrow> py_runtime \<Rightarrow> pymodule \<Rightarrow> py_runtime \<times> (py_error + pymodule)" where
  "py_reload env rt old =
     (case engine_source env rt of
        None \<Rightarrow> (rt, Inl ModuleNotFoundError)
      | Some src \<Rightarrow>
          (case exec_module env src of
             (m, r) \<Rightarrow>
               (let m' = PyModule (case build_all_attr m of
                                     None \<Rightarrow> build_all_attr old
                                   | Some f \<Rightarrow> Some f);
                    rt' = rt\<lparr>sys_modules := (sys_modules rt)(modname \<mapsto> m')\<rparr>
                in (case r of Some e \<Rightarrow> (rt', Inl e) | None \<Rightarrow> (rt', Inr m')))))"

definition load_engine_module :: "py_env \<Rightarrow> py_runtime \<Rightarrow> py_runtime \<times> (py_error + pymodule)" where
  "load_engine_module env rt =
     (case sys_modules rt modname of
        Some old \<Rightarrow> py_reload env rt old
      | None \<Rightarrow> py_import env rt)"

text \<open>
  The lines of \<open>pyCode\<close> after the call: two keys are set on the returned dictionary
  (item assignment raises on anything else), then it is serialised.
\<close>

definition stamp_result :: "pyval \<Rightarrow> py_error + pyval" where
  "stamp_result res =
     (case res of
        PyDict kvs \<Rightarrow>
          (let d1 = AList.update ''engine_loaded'' (PyBool True) kvs;
               v = (case map_of d1 ''engine_version'' of None \<Rightarrow> PyStr ''<unknown>'' | Some x \<Rightarrow> x)
           in Inr (PyDict (AList.update ''engine_version'' v d1)))
      | _ \<Rightarrow> Inl PyTypeError)"

text \<open>
  The Python program \<open>pyCode\<close>, run on the three injected globals. The result holds
  the runtime afterwards, the arguments \<open>build_all\<close> was called with (if it was
  called), and the value of the last expression or the exception.
\<close>

definition run_pyCode ::
  "py_env \<Rightarrow> py_runtime \<Rightarrow> pyval \<Rightarrow> pyval \<Rightarrow> pyval \<Rightarrow>
     py_runtime \<times> pyval list option \<times> (py_error + jsval)" where
  "run_pyCode env rt files_py target_date settings =
     (case load_engine_module env rt of
        (rt', Inl e) \<Rightarrow> (rt', None, Inl e)
      | (rt', Inr eng) \<Rightarrow>
          (case build_all_attr eng of
             None \<Rightarrow> (rt', None, Inl AttributeError)
           | Some build_all \<Rightarrow>
               (let args = [files_py, target_date, settings]
                in (rt', Some args,
                    (case build_all args of
                       Inl e \<Rightarrow> Inl e
                     | Inr res \<Rightarrow>
                         (case stamp_result res of
                            Inl e \<Rightarrow> Inl e
                          | Inr res' \<Rightarrow> json_dumps_parse res'))))))"

text \<open>
  Property read \<open>o.k\<close> on a parsed JSON value, for the property names the code uses
  (array elements and inherited methods are not among them). Reading from null or
  undefined throws.
\<close>

fun js_prop :: "jsval \<Rightarrow> string \<Rightarrow> jsval" where
  "js_prop (Obj kvs) k = (case map_of kvs k of None \<Rightarrow> Undefined | Some v \<Rightarrow> v)"
| "js_prop (Arr xs) k = (if k = ''length'' then Num (int (length xs)) else Undefined)"
| "js_prop (Str s) k = (if k = ''length'' then Num (int (length s)) else Undefined)"
| "js_prop v k = Undefined"

definition nullish :: "jsval \<Rightarrow> bool" where
  "nullish v = (v = Null \<or> v = Undefined)"

definition get_prop :: "jsval \<Rightarrow> string \<Rightarrow> js_error + jsval" where
  "get_prop v k = (if nullish v then Inl TypeError else Inr (js_prop v k))"

definition record_call :: "pyval list option \<Rightarrow> app_state \<Rightarrow> app_state" where
  "record_call c st =
     (case c of None \<Rightarrow> st | Some args \<Rightarrow> st\<lparr>engine_calls := engine_calls st @ [args]\<rparr>)"

text \<open>
  The body of the \<open>try\<close> block of the build button's handler, after the check for an
  empty selection: the state it leaves, and the exception thrown, if any.
\<close>

definition build_try :: "py_env \<Rightarrow> upload list \<Rightarrow> app_state \<Rightarrow> app_state \<times> js_error option" where
  "build_try env files st =
     (case pyodide st of
        None \<Rightarrow> (st, Some TypeError)
      | Some rt \<Rightarrow>
          (let files_py = filesToPyTuples files;
               date = PyStr (target_date_py (dateEl st));
               settings = settings_py (SETTINGS st);
               st1 = log Building st
           in case run_pyCode env rt files_py date settings of
                (rt', c, Inl e) \<Rightarrow>
                  (record_call c (st1\<lparr>pyodide := Some rt'\<rparr>), Some (PythonError e))
              | (rt', c, Inr result) \<Rightarrow>
                  (let st2 = record_call c (st1\<lparr>pyodide := Some rt'\<rparr>)
                   in case get_prop result ''engine_version'' of
                        Inl e \<Rightarrow> (st2, Some e)
                      | Inr ver \<Rightarrow>
                          ((log (BuiltOK ver) st2)\<lparr>console := console st2 @ [ConsoleLog result]\<rparr>,
                           None))))"

text \<open>The click handler of the build button.\<close>

definition build_click :: "py_env \<Rightarrow> app_state \<Rightarrow> app_state" where
  "build_click env st =
     (let files = (case fileInput st of None \<Rightarrow> [] | Some fl \<Rightarrow> fl)
      in if length files = 0 then st\<lparr>alerts := alerts st @ [SelectCsvs]\<rparr>
         else (case build_try env files st of
                 (st', None) \<Rightarrow> st'
               | (st', Some e) \<Rightarrow>
                   (let st2 = log (ErrorMsg e) (st'\<lparr>console := console st' @ [ConsoleError e]\<rparr>)
                    in st2\<lparr>alerts := alerts st2 @ [BuildFailed e]\<rparr>)))"

text \<open>
  The click handler of the reset button; without a file input the first statement
  throws and nothing else runs.
\<close>

definition reset_click :: "app_state \<Rightarrow> app_state" where
  "reset_click st =
     (case fileInput st of
        None \<Rightarrow> st
      | Some fl \<Rightarrow>
          log ResetMsg (st\<lparr>fileInput := Some [],
                            dateEl := (case dateEl st of None \<Rightarrow> None | Some v \<Rightarrow> Some [])\<rparr>))"

text \<open>
  What can happen to the page, one event at a time: the steps of \<open>boot\<close>, the user's
  edits of the two inputs, and the clicks.
\<close>

datatype event =
    BootStart
  | PyodideLoaded "py_runtime option"
  | SettingsFetched fetch_result
  | SelectFiles "upload list"
  | TypeDate string
  | BuildClick
  | ResetClick

fun step :: "py_env \<Rightarrow> app_state \<Rightarrow> event \<Rightarrow> app_state" where
  "step env st BootStart = boot_start st"
| "step env st (PyodideLoaded r) = boot_pyodide r st"
| "step env st (SettingsFetched r) = boot_settings r st"
| "step env st (SelectFiles fl) =
     (case fileInput st of None \<Rightarrow> st | Some old \<Rightarrow> st\<lparr>fileInput := Some fl\<rparr>)"
| "step env st (TypeDate d) =
     (case dateEl st of None \<Rightarrow> st | Some old \<Rightarrow> st\<lparr>dateEl := Some d\<rparr>)"
| "step env st BuildClick = build_click env st"
| "step env st ResetClick = reset_click st"

definition run_events :: "py_env \<Rightarrow> app_state \<Rightarrow> event list \<Rightarrow> app_state" where
  "run_events env st evs = foldl (step env) st evs"

text \<open>The page as the script finds it, before \<open>boot\<close> has run.\<close>

definition initial_app :: "upload list option \<Rightarrow> string option \<Rightarrow> log_msg list option \<Rightarrow> app_state" where
  "initial_app fi de le =
     \<lparr>SETTINGS = Null, pyodide = None, boot_pc = NotStarted, fileInput = fi, dateEl = de,
      logEl = le, alerts = [], console = [], engine_calls = []\<rparr>"


section \<open>The alternative front end (Pyodide glue)\<close>

subsection \<open>Strings of values\<close>

fun nat_digits :: "nat \<Rightarrow> string" where
  "nat_digits n =
     (if n < 10 then [''0123456789'' ! n]
      else nat_digits (n div 10) @ [''0123456789'' ! (n mod 10)])"

declare nat_digits.simps [simp del]

definition int_to_string :: "int \<Rightarrow> string" where
  "int_to_string i = (if i < 0 then ''-'' @ nat_digits (nat (- i)) else nat_digits (nat i))"

fun join_with :: "string \<Rightarrow> string list \<Rightarrow> string" where
  "join_with sep [] = []"
| "join_with sep [x] = x"
| "join_with sep (x # y # ys) = x @ sep @ join_with sep (y # ys)"

text \<open>
  JavaScript's ToString, as a template literal applies it. An array is its elements
  joined by commas, null and undefined elements giving the empty string.
\<close>

fun to_string :: "jsval \<Rightarrow> string"
  and elem_strings :: "jsval list \<Rightarrow> string list" where
  "to_string Undefined = ''undefined''"
| "to_string Null = ''null''"
| "to_string (Bool b) = (if b then ''true'' else ''false'')"
| "to_string (Num n) = int_to_string n"
| "to_string (Str s) = s"
| "to_string (Arr xs) = join_with '','' (elem_strings xs)"
| "to_string (Obj kvs) = ''[object Object]''"
| "elem_strings [] = []"
| "elem_strings (x # xs) =
     (if x = Null \<or> x = Undefined then [] else to_string x) # elem_strings xs"

text \<open>ToNumber on primitives; \<open>None\<close> is NaN.\<close>

fun to_number :: "jsval \<Rightarrow> int option" where
  "to_number Null = Some 0"
| "to_number (Bool b) = Some (if b then 1 else 0)"
| "to_number (Num n) = Some n"
| "to_number v = None"

fun is_string_like :: "jsval \<Rightarrow> bool" where
  "is_string_like (Str s) = True"
| "is_string_like (Arr xs) = True"
| "is_string_like (Obj kvs) = True"
| "is_string_like v = False"

text \<open>
  The text of \<open>a + b\<close> in a template: when either operand is a string (or an array or
  object, which become strings) the two texts are joined, else the numbers are added.
\<close>

definition add_to_string :: "jsval \<Rightarrow> jsval \<Rightarrow> string" where
  "add_to_string a b =
     (if is_string_like a \<or> is_string_like b then to_string a @ to_string b
      else (case (to_number a, to_number b) of
              (Some x, Some y) \<Rightarrow> int_to_string (x + y)
            | _ \<Rightarrow> ''NaN''))"

text \<open>
  \<open>Object.entries\<close>: the own entries of an object in JavaScript's key order, the
  elements of an array or the characters of a string by index.
\<close>

fun indexed :: "nat \<Rightarrow> 'a list \<Rightarrow> (string \<times> 'a) list" where
  "indexed i [] = []"
| "indexed i (x # xs) = (nat_digits i, x) # indexed (Suc i) xs"

fun object_entries :: "jsval \<Rightarrow> js_error + (string \<times> jsval) list" where
  "object_entries Undefined = Inl TypeError"
| "object_entries Null = Inl TypeError"
| "object_entries (Obj kvs) = Inr (js_key_order kvs)"
| "object_entries (Arr xs) = Inr (indexed 0 xs)"
| "object_entries (Str s) = Inr (indexed 0 (map (\<lambda>c. Str [c]) s))"
| "object_entries v = Inr []"

text \<open>\<open>f\<close> on each element in order, stopping at the first exception.\<close>

fun map_throwing :: "('a \<Rightarrow> js_error + 'b) \<Rightarrow> 'a list \<Rightarrow> js_error + 'b list" where
  "map_throwing f [] = Inr []"
| "map_throwing f (x # xs) =
     (case f x of
        Inl e \<Rightarrow> Inl e
      | Inr y \<Rightarrow> (case map_throwing f xs of Inl e \<Rightarrow> Inl e | Inr ys \<Rightarrow> Inr (y # ys)))"


subsection \<open>Renderers\<close>

text \<open>
  What a renderer writes into its element: the rows of the table, each row the texts
  of its cells; the fixed markup around them is left out. \<open>Blank\<close> is the empty
  \<open>innerHTML\<close>.
\<close>

datatype html =
    Blank
  | SummaryHtml "string list list"
  | VetHtml "string list list"
  | SwapsHtml "(string \<times> string \<times> string list list) list"

text \<open>The check mark, in UTF-8.\<close>

definition tick :: string where
  "tick = [CHR 0xE2, CHR 0x9C, CHR 0x94]"

definition or_empty :: "jsval \<Rightarrow> string \<Rightarrow> string" where
  "or_empty r k = to_string (js_or (js_prop r k) (Str []))"

definition or_zero :: "jsval \<Rightarrow> string \<Rightarrow> jsval" where
  "or_zero m k = js_or (js_prop m k) (Num 0)"

definition present_cell :: "jsval \<Rightarrow> string" where
  "present_cell r = (if truthy (js_prop r ''present'') then tick else [])"

definition summary_row :: "string \<times> jsval \<Rightarrow> js_error + string list" where
  "summary_row e =
     (case e of (dept, m) \<Rightarrow>
        if nullish m then Inl TypeError
        else Inr [dept,
                  add_to_string (or_zero m ''regular_expected_AMZN'') (or_zero m ''regular_expected_TEMP''),
                  add_to_string (or_zero m ''regular_present_AMZN'') (or_zero m ''regular_present_TEMP''),
                  to_string (or_zero m ''swap_out''),
                  to_string (or_zero m ''swap_in_expected''),
                  to_string (or_zero m ''swap_in_present''),
                  to_string (or_zero m ''vet_accept''),
                  to_string (or_zero m ''vet_present''),
                  to_string (or_zero m ''vto_accept'')])"

definition renderSummaryBlock :: "jsval \<Rightarrow> js_error + html" where
  "renderSummaryBlock summary =
     (case get_prop summary ''by_department'' of
        Inl e \<Rightarrow> Inl e
      | Inr bd \<Rightarrow>
          (case object_entries (js_or bd (Obj [])) of
             Inl e \<Rightarrow> Inl e
           | Inr es \<Rightarrow>
               (case map_throwing summary_row es of
                  Inl e \<Rightarrow> Inl e
                | Inr rows \<Rightarrow> Inr (SummaryHtml rows))))"

definition vet_row :: "jsval \<Rightarrow> js_error + string list" where
  "vet_row r =
     (if nullish r then Inl TypeError
      else Inr [or_empty r ''work_date'', or_empty r ''type'', or_empty r ''eid'',
                or_empty r ''dept_id'', or_empty r ''management_area_id'',
                or_empty r ''employment_type'', present_cell r])"

text \<open>\<open>arr.map(f)\<close>: only an array has \<open>map\<close>.\<close>

definition array_map :: "(jsval \<Rightarrow> js_error + 'b) \<Rightarrow> jsval \<Rightarrow> js_error + 'b list" where
  "array_map f arr = (case arr of Arr xs \<Rightarrow> map_throwing f xs | _ \<Rightarrow> Inl TypeError)"

definition renderVetBlock :: "jsval \<Rightarrow> js_error + html" where
  "renderVetBlock vet =
     (case get_prop vet ''records'' of
        Inl e \<Rightarrow> Inl e
      | Inr rs \<Rightarrow>
          (case array_map vet_row (js_or rs (Arr [])) of
             Inl e \<Rightarrow> Inl e
           | Inr rows \<Rightarrow> Inr (VetHtml rows)))"

definition swap_row :: "jsval \<Rightarrow> js_error + string list" where
  "swap_row r =
     (if nullish r then Inl TypeError
      else Inr [or_empty r ''skip_date'', or_empty r ''work_date'', or_empty r ''eid'',
                or_empty r ''dept_id'', or_empty r ''management_area_id'',
                or_empty r ''employment_type'', present_cell r])"

definition block :: "string \<Rightarrow> jsval \<Rightarrow> js_error + string \<times> string \<times> string list list" where
  "block title arr =
     (case array_map swap_row arr of
        Inl e \<Rightarrow> Inl e
      | Inr rows \<Rightarrow> Inr (title, to_string (js_prop arr ''length''), rows))"

definition swaps_part :: "jsval \<Rightarrow> string \<Rightarrow> string \<Rightarrow> js_error + string \<times> string \<times> string list list" where
  "swaps_part sw title k =
     (case get_prop sw k of Inl e \<Rightarrow> Inl e | Inr a \<Rightarrow> block title (js_or a (Arr [])))"

definition renderSwapsBlock :: "jsval \<Rightarrow> js_error + html" where
  "renderSwapsBlock sw =
     (case swaps_part sw ''Swap OUT'' ''swap_out'' of
        Inl e \<Rightarrow> Inl e
      | Inr b1 \<Rightarrow>
          (case swaps_part sw ''Swap IN (expected)'' ''swap_in_expected'' of
             Inl e \<Rightarrow> Inl e
           | Inr b2 \<Rightarrow>
               (case swaps_part sw ''Swap IN (present)'' ''swap_in_present'' of
                  Inl e \<Rightarrow> Inl e
                | Inr b3 \<Rightarrow> Inr (SwapsHtml [b1, b2, b3]))))"

definition renderAuditBlock :: html where
  "renderAuditBlock = Blank"


subsection \<open>The build\<close>

datatype status_text =
    StatusInitial
  | StatusLoadingPyodide
  | StatusPreparingEngine
  | StatusReadingSettings
  | StatusProcessing
  | StatusDone
  | StatusError js_error
  | StatusCleared

datatype badge_text = BadgeInitial | DataAsOf string | DataAsOfNothing

text \<open>The runtime of this front end: the Python globals, of which \<open>build_all\<close> matters.\<close>

record glue_runtime =
  globals_build_all :: "engine option"

text \<open>
  \<open>pyodidePromise\<close>: \<open>None\<close> is the initial null, \<open>Some None\<close> a promise that
  rejected, \<open>Some (Some rt)\<close> one that resolved to the runtime. The page elements
  (the code uses them unguarded) are taken to exist; \<open>summary_html\<close>, \<open>vet_html\<close>,
  \<open>swaps_html\<close> and \<open>audit_html\<close> are the \<open>innerHTML\<close> of the elements
  \<open>summary\<close>, \<open>vet\<close>, \<open>swaps\<close> and \<open>audit\<close>. \<open>page_alerts\<close> and
  \<open>build_all_calls\<close> record the alerts shown and the positional arguments of every
  call of \<open>build_all\<close>.
\<close>

record page =
  pyodidePromise :: "glue_runtime option option"
  status :: status_text
  badge :: badge_text
  summary_html :: html
  vet_html :: html
  swaps_html :: html
  audit_html :: html
  fileInput_files :: "upload list"
  targetDate :: string
  page_alerts :: nat
  build_all_calls :: "pyval list list"

text \<open>
  What the world outside answers during one build: whether the runtime and its packages
  load, the text fetched as engine_pyodide.py (\<open>None\<close>: the fetch rejects), what
  executing a text defines and raises, the body fetched as settings.json, the clock,
  and what Pyodide's \<open>to_py\<close> makes of a file map whose prototype has been replaced
  (see \<open>fileMap_of\<close>).
\<close>

datatype body_result = Rejected | NotJson | Json jsval

record glue_env =
  loadPyodide_ok :: bool
  engine_text :: "string option"
  exec_code :: "string \<Rightarrow> pymodule \<times> py_error option"
  settings_body :: body_result
  now_iso :: string
  exotic_file_map :: "upload list \<Rightarrow> py_error + pyval"

text \<open>\<open>ensurePyodide\<close>: the promise is created once and kept, also when it rejects.\<close>

definition ensurePyodide :: "glue_env \<Rightarrow> page \<Rightarrow> page \<times> (js_error + glue_runtime)" where
  "ensurePyodide env pg =
     (let pg1 = (case pyodidePromise pg of
                   Some p \<Rightarrow> pg
                 | None \<Rightarrow>
                     pg\<lparr>pyodidePromise :=
                          Some (if loadPyodide_ok env then Some \<lparr>globals_build_all = None\<rparr> else None)\<rparr>)
      in case pyodidePromise pg1 of
           Some (Some py) \<Rightarrow> (pg1, Inr py)
         | _ \<Rightarrow> (pg1, Inl NetworkError))"

text \<open>
  \<open>loadEngine\<close>: the engine's text is fetched and run in the Python globals, where
  the names it defines stay; a name it does not define keeps its value.
\<close>

definition loadEngine :: "glue_env \<Rightarrow> glue_runtime \<Rightarrow> glue_runtime \<times> js_error option" where
  "loadEngine env py =
     (case engine_text env of
        None \<Rightarrow> (py, Some NetworkError)
      | Some code \<Rightarrow>
          (case exec_code env code of
             (m, r) \<Rightarrow>
               (py\<lparr>globals_build_all :=
                      (case build_all_attr m of None \<Rightarrow> globals_build_all py | Some f \<Rightarrow> Some f)\<rparr>,
                map_option PythonError r)))"

definition readSettings :: "glue_env \<Rightarrow> js_error + jsval" where
  "readSettings env =
     (case settings_body env of
        Rejected \<Rightarrow> Inl NetworkError
      | NotJson \<Rightarrow> Inl SyntaxError
      | Json v \<Rightarrow> Inr v)"

text \<open>
  \<open>fileMap[f.name] = bytes\<close> for each file, on an object that starts empty: the own
  properties in creation order, a later file of the same name replacing the bytes of the
  earlier one. The name \<open>__proto__\<close> makes no property: assigning to it replaces the
  object's prototype, after which the object is no plain object. \<open>None\<close> stands for
  a map that has met such a name.
\<close>

definition fileMap_of :: "upload list \<Rightarrow> (string \<times> nat list) list option" where
  "fileMap_of files =
     (if ''__proto__'' \<in> set (map fst files) then None
      else Some (foldl (\<lambda>m f. AList.update (fst f) (snd f) m) [] files))"

text \<open>
  \<open>JS_FILE_MAP.to_py()\<close> in Python: a dictionary of the map's entries, in the order
  JavaScript lists them. For a map whose prototype has been replaced the repository
  does not decide the outcome; the environment gives it.
\<close>

definition file_map_to_py :: "glue_env \<Rightarrow> upload list \<Rightarrow> py_error + pyval" where
  "file_map_to_py env files =
     (case fileMap_of files of
        None \<Rightarrow> exotic_file_map env files
      | Some m \<Rightarrow> Inr (PyDict (js_key_order (map (map_prod id PyBytes) m))))"

text \<open>
  \<open>.to_py()\<close> in Python on an injected global: an object or array arrives as a proxy
  and converts; a primitive (null too) has arrived as a plain Python value, which has no
  such method.
\<close>

fun proxy_to_py :: "jsval \<Rightarrow> py_error + pyval" where
  "proxy_to_py (Obj kvs) = Inr (toPy (Obj kvs))"
| "proxy_to_py (Arr xs) = Inr (toPy (Arr xs))"
| "proxy_to_py v = Inl AttributeError"

text \<open>
  The Python program \<open>pyCode\<close> of this front end, on the three injected globals
  (\<open>files_py\<close> is what \<open>JS_FILE_MAP.to_py()\<close> gives): the arguments
  \<open>build_all\<close> was called with (if it was called), and the parsed JSON text or the
  exception. Python looks the function up, then evaluates the arguments from left to
  right.
\<close>

definition run_glue_pyCode ::
  "glue_runtime \<Rightarrow> py_error + pyval \<Rightarrow> jsval \<Rightarrow> string \<Rightarrow>
     pyval list option \<times> (py_error + jsval)" where
  "run_glue_pyCode py files_py settings date =
     (case globals_build_all py of
        None \<Rightarrow> (None, Inl NameError)
      | Some build_all \<Rightarrow>
          (case files_py of
             Inl e \<Rightarrow> (None, Inl e)
           | Inr f \<Rightarrow>
               (case proxy_to_py settings of
                  Inl e \<Rightarrow> (None, Inl e)
                | Inr s \<Rightarrow>
                    (let args = [f, s, PyStr date]
                     in (Some args,
                         (case build_all args of
                            Inl e \<Rightarrow> Inl e
                          | Inr res \<Rightarrow> json_dumps_parse res))))))"

definition note_call :: "pyval list option \<Rightarrow> page \<Rightarrow> page" where
  "note_call c pg =
     (case c of None \<Rightarrow> pg | Some args \<Rightarrow> pg\<lparr>build_all_calls := build_all_calls pg @ [args]\<rparr>)"

text \<open>\<open>buildData\<close>: the page it leaves, and the parsed result or the exception thrown.\<close>

definition buildData :: "glue_env \<Rightarrow> upload list \<Rightarrow> page \<Rightarrow> page \<times> (js_error + jsval)" where
  "buildData env files pg =
     (case ensurePyodide env (pg\<lparr>status := StatusLoadingPyodide\<rparr>) of
        (pg1, Inl e) \<Rightarrow> (pg1, Inl e)
      | (pg1, Inr py) \<Rightarrow>
          (case loadEngine env py of
             (py', Some e) \<Rightarrow>
               (pg1\<lparr>status := StatusPreparingEngine, pyodidePromise := Some (Some py')\<rparr>, Inl e)
           | (py', None) \<Rightarrow>
               (let pg2 = pg1\<lparr>status := StatusReadingSettings, pyodidePromise := Some (Some py')\<rparr>
                in case readSettings env of
                     Inl e \<Rightarrow> (pg2, Inl e)
                   | Inr settings \<Rightarrow>
                       (let pg3 = pg2\<lparr>status := StatusProcessing\<rparr>
                        in case run_glue_pyCode py' (file_map_to_py env files) settings (targetDate pg) of
                             (c, Inl e) \<Rightarrow> (note_call c pg3, Inl (PythonError e))
                           | (c, Inr data) \<Rightarrow>
                               (let pg4 = (note_call c pg3)\<lparr>status := StatusDone\<rparr>
                                in case get_prop data ''generated_at'' of
                                     Inl e \<Rightarrow> (pg4, Inl e)
                                   | Inr g \<Rightarrow>
                                       (pg4\<lparr>badge := DataAsOf (to_string (js_or g (Str (now_iso env))))\<rparr>,
                                        Inr data))))))"

text \<open>
  The statements of the \<open>try\<close> block after \<open>buildData\<close>: each renderer computes its
  markup and then assigns it, so one that throws leaves its element as it was. \<open>data\<close>
  is not null here, \<open>buildData\<close> having read \<open>data.generated_at\<close>.
\<close>

definition render_all :: "jsval \<Rightarrow> page \<Rightarrow> page \<times> js_error option" where
  "render_all data pg =
     (case renderSummaryBlock (js_or (js_prop data ''dept_summary'') (Obj [])) of
        Inl e \<Rightarrow> (pg, Some e)
      | Inr h1 \<Rightarrow>
          (let pg1 = pg\<lparr>summary_html := h1\<rparr>
           in case renderVetBlock (js_or (js_prop data ''vet_vto'') (Obj [(''records'', Arr [])])) of
                Inl e \<Rightarrow> (pg1, Some e)
              | Inr h2 \<Rightarrow>
                  (let pg2 = pg1\<lparr>vet_html := h2\<rparr>
                   in case renderSwapsBlock
                             (js_or (js_prop data ''swaps'')
                                (Obj [(''swap_out'', Arr []), (''swap_in_expected'', Arr []),
                                      (''swap_in_present'', Arr [])])) of
                        Inl e \<Rightarrow> (pg2, Some e)
                      | Inr h3 \<Rightarrow> (pg2\<lparr>swaps_html := h3, audit_html := renderAuditBlock\<rparr>, None))))"

text \<open>The click handler of the run button.\<close>

definition run_click :: "glue_env \<Rightarrow> page \<Rightarrow> page" where
  "run_click env pg =
     (let files = fileInput_files pg
      in if length files = 0 then pg\<lparr>page_alerts := page_alerts pg + 1\<rparr>
         else (case buildData env files pg of
                 (pg1, Inl e) \<Rightarrow> pg1\<lparr>status := StatusError e\<rparr>
               | (pg1, Inr data) \<Rightarrow>
                   (case render_all data pg1 of
                      (pg2, Some e) \<Rightarrow> pg2\<lparr>status := StatusError e\<rparr>
                    | (pg2, None) \<Rightarrow> pg2)))"

text \<open>The click handler of the reset button.\<close>

definition glue_reset_click :: "page \<Rightarrow> page" where
  "glue_reset_click pg =
     pg\<lparr>fileInput_files := [], summary_html := Blank, vet_html := Blank, swaps_html := Blank,
        audit_html := Blank,
        status := StatusCleared, badge := DataAsOfNothing\<rparr>"



section \<open>Shapes and examples used in the statements\<close>

text \<open>
  The shape DD/MM/YYYY as the claim words it: two digits, a slash, two digits, a slash,
  four digits, and nothing else; and the rearrangement of such a text to YYYY-MM-DD.
\<close>

fun ddmmyyyy_shape :: "string \<Rightarrow> bool" where
  "ddmmyyyy_shape [d1, d2, s1, m1, m2, s2, y1, y2, y3, y4] =
     (is_digit d1 \<and> is_digit d2 \<and> s1 = CHR ''/'' \<and> is_digit m1 \<and> is_digit m2 \<and>
      s2 = CHR ''/'' \<and> is_digit y1 \<and> is_digit y2 \<and> is_digit y3 \<and> is_digit y4)"
| "ddmmyyyy_shape s = False"

fun iso_of :: "string \<Rightarrow> string" where
  "iso_of [d1, d2, s1, m1, m2, s2, y1, y2, y3, y4] =
     [y1, y2, y3, y4, CHR ''-'', m1, m2, CHR ''-'', d1, d2]"
| "iso_of s = []"

fun yyyymmdd_shape :: "string \<Rightarrow> bool" where
  "yyyymmdd_shape [y1, y2, y3, y4, h1, m1, m2, h2, d1, d2] =
     (is_digit y1 \<and> is_digit y2 \<and> is_digit y3 \<and> is_digit y4 \<and> h1 = CHR ''-'' \<and>
      is_digit m1 \<and> is_digit m2 \<and> h2 = CHR ''-'' \<and> is_digit d1 \<and> is_digit d2)"
| "yyyymmdd_shape s = False"


definition five_fields :: "string list" where
  "five_fields = [''generated_at'', ''dept_summary'', ''presence_map'', ''vet_vto'', ''swaps'']"

text \<open>The results app.js has printed with \<open>console.log\<close>.\<close>

fun results_logged :: "console_entry list \<Rightarrow> jsval list" where
  "results_logged [] = []"
| "results_logged (ConsoleLog r # es) = r # results_logged es"
| "results_logged (ConsoleError e # es) = results_logged es"

text \<open>How many files the first argument of a call of \<open>build_all\<close> holds.\<close>

fun files_count :: "pyval list \<Rightarrow> nat" where
  "files_count (PyList xs # rest) = length xs"
| "files_count (PyDict kvs # rest) = length kvs"
| "files_count args = 0"

text \<open>
  An example engine, which returns a structure of the README's shape whatever it is
  given, and example inputs: one uploaded file, a settings document, a page of each front
  end. In \<open>example_py_env\<close> the text \<open>boot\<close> writes stands for embedded engine
  code: executing it defines \<open>build_all\<close>.
\<close>

definition example_result :: pyval where
  "example_result =
     PyDict [(''generated_at'', PyStr ''2025-10-04T06:00:00''),
             (''dept_summary'', PyDict [(''by_department'',
                PyDict [(''D1'', PyDict [(''regular_expected_AMZN'', PyInt 1),
                                         (''regular_present_AMZN'', PyInt 1),
                                         (''regular_expected_TEMP'', PyInt 1),
                                         (''regular_present_TEMP'', PyInt 0)])])]),
             (''presence_map'', PyDict []),
             (''vet_vto'', PyDict [(''records'', PyList [])]),
             (''swaps'', PyDict [(''swap_out'', PyList []), (''swap_in_expected'', PyList []),
                                 (''swap_in_present'', PyList [])])]"

definition example_engine :: engine where
  "example_engine args = Inr example_result"

definition example_files :: "upload list" where
  "example_files = [(''roster.csv'', [101, 105, 100])]"

definition example_settings :: jsval where
  "example_settings = Obj [(''departments'', Obj [(''D1'', Str ''Dock'')])]"

definition example_py_env :: py_env where
  "example_py_env =
     \<lparr>sys_path = [''/''],
      exec_module = (\<lambda>src. if src = placeholder then (PyModule (Some example_engine), None)
                           else (PyModule None, Some NameError))\<rparr>"

definition fresh_runtime :: py_runtime where
  "fresh_runtime = \<lparr>fs = Map.empty, sys_modules = Map.empty\<rparr>"

definition example_app :: app_state where
  "example_app =
     run_events example_py_env (initial_app (Some []) (Some []) (Some []))
       [BootStart, PyodideLoaded (Some fresh_runtime), SettingsFetched (FetchOk example_settings),
        SelectFiles example_files, TypeDate ''04/10/2025'']"

definition example_glue_env :: glue_env where
  "example_glue_env =
     \<lparr>loadPyodide_ok = True,
      engine_text = Some ''def build_all(files, settings, target_date): ...'',
      exec_code = (\<lambda>src. (PyModule (Some example_engine), None)),
      settings_body = Json example_settings,
      now_iso = ''2025-10-05T00:00:00.000Z'',
      exotic_file_map = (\<lambda>files. Inl PyTypeError)\<rparr>"

definition example_page :: page where
  "example_page =
     \<lparr>pyodidePromise = None, status = StatusInitial, badge = BadgeInitial,
      summary_html = SummaryHtml [[''D9'', ''4'', ''3'', ''0'', ''0'', ''0'', ''0'', ''0'', ''0'']],
      vet_html = VetHtml [], swaps_html = SwapsHtml [], audit_html = Blank,
      fileInput_files = example_files, targetDate = ''2025-10-04'', page_alerts = 0,
      build_all_calls = []\<rparr>"

text \<open>
  The order of the three arguments in the contract the specification states for the
  engine: \<open>build(files, settings, targetDate)\<close>.
\<close>

definition contract_args :: "pyval \<Rightarrow> pyval \<Rightarrow> pyval \<Rightarrow> pyval list" where
  "contract_args files settings date = [files, settings, date]"


text \<open>An engine that raises on every input, and the two environments with it in place.\<close>

definition failing_engine :: engine where
  "failing_engine args = Inl (Raised ''roster.csv: column eid is missing'')"

definition failing_py_env :: py_env where
  "failing_py_env =
     \<lparr>sys_path = [''/''],
      exec_module = (\<lambda>src. if src = placeholder then (PyModule (Some failing_engine), None)
                           else (PyModule None, Some NameError))\<rparr>"

definition failing_glue_env :: glue_env where
  "failing_glue_env =
     example_glue_env\<lparr>exec_code := (\<lambda>src. (PyModule (Some failing_engine), None))\<rparr>"

text \<open>
  \<open>boot\<close> has run to its end: the runtime is there and the module file holds the
  placeholder text.
\<close>

definition booted :: "app_state \<Rightarrow> bool" where
  "booted st =
     (boot_pc st = BootDone \<and>
      (case pyodide st of None \<Rightarrow> False | Some rt \<Rightarrow> fs rt engine_path = Some placeholder))"

text \<open>
  Three runs of app.js on a fresh page. In the first the build button is clicked while
  \<open>boot\<close> still awaits settings.json; in the second the fetch of settings.json
  fails and a build follows; in the third the runtime comes with an engine file already
  at the module's path, the fetch fails, and two builds follow.
\<close>

definition fresh_page :: app_state where
  "fresh_page = initial_app (Some []) (Some []) (Some [])"

definition early_click_events :: "event list" where
  "early_click_events =
     [BootStart, PyodideLoaded (Some fresh_runtime), SelectFiles example_files, BuildClick]"

definition no_settings_events :: "event list" where
  "no_settings_events =
     [BootStart, PyodideLoaded (Some fresh_runtime), SettingsFetched FetchRejected,
      SelectFiles example_files, BuildClick]"

definition bundled_runtime :: py_runtime where
  "bundled_runtime = \<lparr>fs = [engine_path \<mapsto> ''def build_all(*args): ...''], sys_modules = Map.empty\<rparr>"

text \<open>
  A selection of seven files, and the two pages with it in place of the single file.
\<close>

definition seven_files :: "upload list" where
  "seven_files =
     [(''a.csv'', []), (''b.csv'', []), (''c.csv'', []), (''d.csv'', []), (''e.csv'', []),
      (''f.csv'', []), (''g.csv'', [])]"

definition crowded_app :: app_state where
  "crowded_app = example_app\<lparr>fileInput := Some seven_files\<rparr>"

definition crowded_page :: page where
  "crowded_page = example_page\<lparr>fileInput_files := seven_files\<rparr>"

text \<open>
  An engine whose result has a number where the list of VET/VTO records should be, and
  the environment of the alternative front end with it in place.
\<close>

definition malformed_result :: pyval where
  "malformed_result =
     PyDict [(''generated_at'', PyStr ''2025-10-04T12:00:00''),
             (''dept_summary'', PyDict [(''by_department'',
                PyDict [(''D1'', PyDict [(''regular_expected_AMZN'', PyInt 2),
                                         (''regular_present_AMZN'', PyInt 2)])])]),
             (''presence_map'', PyDict []),
             (''vet_vto'', PyDict [(''records'', PyInt 5)]),
             (''swaps'', PyDict [(''swap_out'', PyList []), (''swap_in_expected'', PyList []),
                                 (''swap_in_present'', PyList [])])]"

definition malformed_engine :: engine where
  "malformed_engine args = Inr malformed_result"

definition malformed_glue_env :: glue_env where
  "malformed_glue_env =
     example_glue_env\<lparr>exec_code := (\<lambda>src. (PyModule (Some malformed_engine), None))\<rparr>"

text \<open>
  A module search path of the kind Pyodide sets up, with the home directory and the
  library directories and without the root directory; executing the text of a bundled
  engine defines \<open>build_all\<close>, executing any other text (the placeholder is a bare
  name) raises. Then a runtime that comes with the bundled engine in the home
  directory, the page after a full boot on a given runtime with one file selected, and
  an environment with the root directory on the path where executing any text raises.
\<close>

definition bundled_text :: string where
  "bundled_text = ''def build_all(*args): ...''"

definition home_py_env :: py_env where
  "home_py_env =
     \<lparr>sys_path = [''/home/pyodide'', ''/lib/python312.zip'', ''/lib/python3.12'',
                  ''/lib/python3.12/lib-dynload'', ''/lib/python3.12/site-packages''],
      exec_module = (\<lambda>src. if src = bundled_text then (PyModule (Some example_engine), None)
                           else (PyModule None, Some NameError))\<rparr>"

definition home_runtime :: py_runtime where
  "home_runtime =
     \<lparr>fs = [''/home/pyodide/engine_pyodide.py'' \<mapsto> bundled_text], sys_modules = Map.empty\<rparr>"

definition home_app :: "py_runtime \<Rightarrow> app_state" where
  "home_app rt =
     run_events home_py_env fresh_page
       [BootStart, PyodideLoaded (Some rt), SettingsFetched FetchRejected,
        SelectFiles example_files]"

definition raising_py_env :: py_env where
  "raising_py_env = example_py_env\<lparr>exec_module := (\<lambda>src. (PyModule None, Some NameError))\<rparr>"

section \<open>The Aggregation Engine\<close>

text \<open>
  The engine, \<open>build_all\<close> of engine_pyodide.py, is not among the sources (the front
  ends above take it as a parameter). The definitions of this section follow the
  specification's data model and the processing steps of its component design; they
  are used only by the statements about the engine itself.
\<close>

text \<open>
  Modelled from the spec: a date ("work date", "skip date", "target date") of the
  missing engine, as a day number.
\<close>

type_synonym date = nat

text \<open>
  Modelled from the spec: the categories of its classification, "every input record
  appears in exactly one of {regular, VET, VTO, swap, unknown}"; the engine's code is
  missing.
\<close>

datatype category = Regular | VET | VTO | Swap | Unknown

text \<open>
  Modelled from the spec: one parsed input row, with the attributes the data model
  gives AttendanceRecord, SwapRecord and VetVtoRecord (employee, department, management
  area, employment type, work date, skip date, presence flag, acceptance flag) and the
  code the settings' markers classify it by. Dates are day numbers. The row type of the
  missing engine.
\<close>

record raw_record =
  eid :: string
  dept_id :: string
  management_area_id :: string
  employment_type :: string
  type_code :: string
  work_date :: date
  skip_date :: "date option"
  present :: bool
  accepted :: bool

text \<open>
  Modelled from the spec: SettingsMapping, "mapping raw department/area codes to
  canonical labels or groupings, plus any markers used to classify records"; the
  settings type of the missing engine. Absent settings are \<open>None\<close>.
\<close>

record settings_mapping =
  departments :: "(string \<times> string) list"
  areas :: "(string \<times> string) list"
  employment_types :: "(string \<times> string) list"
  vet_markers :: "string list"
  vto_markers :: "string list"
  swap_markers :: "string list"

text \<open>
  Modelled from the spec: "unmapped codes must be classified as unknown"; with no
  settings every table is empty ("treating all codes as unmapped"). Part of step 1 of
  the missing engine.
\<close>

definition canonical :: "(string \<times> string) list \<Rightarrow> string \<Rightarrow> string" where
  "canonical table code =
     (case map_of table code of None \<Rightarrow> ''unknown'' | Some label \<Rightarrow> label)"

text \<open>
  Modelled from the spec: one table of the settings of the missing engine, empty when
  the settings document is absent ("engine falls back to treating all codes as
  unmapped").
\<close>

definition table_of ::
  "(settings_mapping \<Rightarrow> (string \<times> string) list) \<Rightarrow> settings_mapping option \<Rightarrow>
     (string \<times> string) list" where
  "table_of field settings = (case settings of None \<Rightarrow> [] | Some s \<Rightarrow> field s)"

text \<open>
  Modelled from the spec: step 1 of the missing engine, "normalize every raw record's
  department/area/employment-type fields through the settings mapping".
\<close>

definition normalize :: "settings_mapping option \<Rightarrow> raw_record \<Rightarrow> raw_record" where
  "normalize settings r =
     r\<lparr>dept_id := canonical (table_of departments settings) (dept_id r),
       management_area_id := canonical (table_of areas settings) (management_area_id r),
       employment_type := canonical (table_of employment_types settings) (employment_type r)\<rparr>"

text \<open>
  Modelled from the spec: step 2 of the missing engine, "partition records into regular
  attendance, VET, VTO, and swap categories using settings-driven markers", with "a
  record with a department code absent from settings produces an unknown bucket entry".
\<close>

definition category_of :: "settings_mapping option \<Rightarrow> raw_record \<Rightarrow> category" where
  "category_of settings r =
     (case settings of
        None \<Rightarrow> Unknown
      | Some s \<Rightarrow>
          if map_of (departments s) (dept_id r) = None then Unknown
          else if type_code r \<in> set (vet_markers s) then VET
          else if type_code r \<in> set (vto_markers s) then VTO
          else if type_code r \<in> set (swap_markers s) then Swap
          else Regular)"

text \<open>
  Modelled from the spec: the bucket of one category after steps 1 and 2 of the missing
  engine: the normalized records of that category, in input order.
\<close>

definition bucket ::
  "settings_mapping option \<Rightarrow> category \<Rightarrow> raw_record list \<Rightarrow> raw_record list" where
  "bucket settings c rs =
     map (normalize settings) (filter (\<lambda>r. category_of settings r = c) rs)"

text \<open>
  Modelled from the spec: the input \<open>files\<close>, "mapping of filename to row-set", read as
  one sequence of rows by the missing engine.
\<close>

definition all_records :: "(string \<times> raw_record list) list \<Rightarrow> raw_record list" where
  "all_records files = concat (map snd files)"

text \<open>
  Modelled from the spec: the target date of the missing engine, "when present,
  restrict aggregation to records whose work date equals targetDate; when absent, use
  the most recent date present in the data".
\<close>

definition effective_date :: "date option \<Rightarrow> raw_record list \<Rightarrow> date option" where
  "effective_date target rs =
     (case target of
        Some d \<Rightarrow> Some d
      | None \<Rightarrow>
          (case rs of
             [] \<Rightarrow> None
           | r # rest \<Rightarrow> Some (fold max (map work_date rest) (work_date r))))"

text \<open>
  Modelled from the spec: the date filter of the missing engine, "no record with a
  different work date contributes to any summary count".
\<close>

definition on_date :: "date option \<Rightarrow> raw_record list \<Rightarrow> raw_record list" where
  "on_date d rs = filter (\<lambda>r. Some (work_date r) = d) rs"

text \<open>
  Modelled from the spec: "the regular-attendance records for the target date", the
  records step 3 of the missing engine counts.
\<close>

definition regular_for_date ::
  "(string \<times> raw_record list) list \<Rightarrow> settings_mapping option \<Rightarrow> date option \<Rightarrow>
     raw_record list" where
  "regular_for_date files settings target =
     on_date (effective_date target (all_records files))
       (bucket settings Regular (all_records files))"

text \<open>
  Modelled from the spec: DepartmentSummary, "expected/present regular headcount split
  by employment type, swap-out count, swap-in expected/present counts, VET
  accept/present counts, VTO accept count"; a row of the missing engine's output.
\<close>

record department_summary =
  regular_expected :: "(string \<times> nat) list"
  regular_present :: "(string \<times> nat) list"
  swap_out :: nat
  swap_in_expected :: nat
  swap_in_present :: nat
  vet_accept :: nat
  vet_present :: nat
  vto_accept :: nat

text \<open>
  Modelled from the spec: the "swap record collections (out / in-expected /
  in-present)" of the missing engine's output.
\<close>

record swap_collections =
  swap_out_records :: "raw_record list"
  swap_in_expected_records :: "raw_record list"
  swap_in_present_records :: "raw_record list"

text \<open>
  Modelled from the spec: BuildResult, "DepartmentSummary collection, presence map,
  VET/VTO record collection, swap record collections"; the output type of the missing
  engine. Its generation timestamp is left out: the three inputs of the contract do not
  determine it, and no statement below is about it.
\<close>

record build_result =
  dept_summary :: "(string \<times> department_summary) list"
  presence_map :: "(string \<times> string list) list"
  vet_vto :: "raw_record list"
  swaps :: swap_collections

text \<open>
  Modelled from the spec: "counting" in the steps of the missing engine: how many
  elements of a list satisfy a condition.
\<close>

definition count_where :: "('a \<Rightarrow> bool) \<Rightarrow> 'a list \<Rightarrow> nat" where
  "count_where P xs = length (filter P xs)"

text \<open>
  Modelled from the spec: the split "by employment type" of step 3 of the missing
  engine: for each employment type among \<open>rs\<close>, how many of \<open>counted\<close> have it.
\<close>

definition by_type :: "raw_record list \<Rightarrow> raw_record list \<Rightarrow> (string \<times> nat) list" where
  "by_type rs counted =
     map (\<lambda>t. (t, count_where (\<lambda>r. employment_type r = t) counted))
       (remdups (map employment_type rs))"

text \<open>
  Modelled from the spec: steps 3 to 5 of the missing engine for one department: "for
  each department, compute expected and present counts, split by employment type, by
  counting presence flags"; swap-out (the skip date is the target date) and swap-in
  (the work date is; expected, and present); "for VET/VTO: count acceptances and, for
  VET, count actual presence".
\<close>

definition summarize ::
  "date option \<Rightarrow> raw_record list \<Rightarrow> raw_record list \<Rightarrow> raw_record list \<Rightarrow>
     raw_record list \<Rightarrow> string \<Rightarrow> department_summary" where
  "summarize d regular vet vto swap dept =
     (let mine = (\<lambda>rs. filter (\<lambda>r. dept_id r = dept) rs);
          reg = mine (on_date d regular);
          sw_in = mine (on_date d swap)
      in \<lparr>regular_expected = by_type reg reg,
          regular_present = by_type reg (filter present reg),
          swap_out = length (mine (filter (\<lambda>r. skip_date r = d \<and> d \<noteq> None) swap)),
          swap_in_expected = length sw_in,
          swap_in_present = length (filter present sw_in),
          vet_accept = length (filter accepted (mine (on_date d vet))),
          vet_present = length (filter present (mine (on_date d vet))),
          vto_accept = length (filter accepted (mine (on_date d vto)))\<rparr>)"

text \<open>
  Modelled from the spec: the missing engine's \<open>build(files, settings, targetDate)\<close>,
  steps 1 to 6, a function of its three inputs.
\<close>

definition build ::
  "(string \<times> raw_record list) list \<Rightarrow> settings_mapping option \<Rightarrow> date option \<Rightarrow>
     build_result" where
  "build files settings target =
     (let rs = all_records files;
          d = effective_date target rs;
          regular = bucket settings Regular rs;
          vet = bucket settings VET rs;
          vto = bucket settings VTO rs;
          swap = bucket settings Swap rs;
          depts = remdups (map dept_id (regular @ vet @ vto @ swap))
      in \<lparr>dept_summary = map (\<lambda>dept. (dept, summarize d regular vet vto swap dept)) depts,
          presence_map =
            map (\<lambda>dept. (dept, map eid (filter (\<lambda>r. dept_id r = dept \<and> present r)
                                           (on_date d regular))))
              depts,
          vet_vto = on_date d (vet @ vto),
          swaps = \<lparr>swap_out_records = filter (\<lambda>r. skip_date r = d \<and> d \<noteq> None) swap,
                   swap_in_expected_records = on_date d swap,
                   swap_in_present_records = filter present (on_date d swap)\<rparr>\<rparr>)"

text \<open>
  Modelled from the spec: the per-department regular present count of its
  reconciliation property, the sum over the employment types.
\<close>

definition regular_present_total :: "department_summary \<Rightarrow> nat" where
  "regular_present_total row = sum_list (map snd (regular_present row))"

text \<open>
  Modelled from the spec: the per-department regular expected count of its
  reconciliation property, the sum over the employment types.
\<close>

definition regular_expected_total :: "department_summary \<Rightarrow> nat" where
  "regular_expected_total row = sum_list (map snd (regular_expected row))"

text \<open>
  Modelled from the spec: settings for its example scenarios, which the spec leaves
  implicit: department D1, the employment types AMZN and TEMP, one marker per category.
\<close>

definition scenario_settings :: settings_mapping where
  "scenario_settings =
     \<lparr>departments = [(''D1'', ''D1'')], areas = [(''MA1'', ''MA1'')],
      employment_types = [(''AMZN'', ''AMZN''), (''TEMP'', ''TEMP'')],
      vet_markers = [''VET''], vto_markers = [''VTO''], swap_markers = [''SWAP'']\<rparr>"

text \<open>
  Modelled from the spec: a row of its example scenarios, by employee, department,
  employment type, classifying code, work date, skip date and presence flag.
\<close>

definition scenario_record ::
  "string \<Rightarrow> string \<Rightarrow> string \<Rightarrow> string \<Rightarrow> date \<Rightarrow> date option \<Rightarrow> bool \<Rightarrow> raw_record" where
  "scenario_record e dept ty code wd sd p =
     \<lparr>eid = e, dept_id = dept, management_area_id = ''MA1'', employment_type = ty,
      type_code = code, work_date = wd, skip_date = sd, present = p, accepted = True\<rparr>"

text \<open>
  Modelled from the spec: the inputs of its two example scenarios (two employees of D1
  expected on 2025-10-04, of whom only the AMZN one is present; a swap of E1 from
  2025-10-03 to 2025-10-04), with a record of an unmapped department and an accepted
  VET record besides.
\<close>

definition scenario_files :: "(string \<times> raw_record list) list" where
  "scenario_files =
     [(''roster.csv'',
         [scenario_record ''E1'' ''D1'' ''AMZN'' [] 20251004 None True,
          scenario_record ''E2'' ''D1'' ''TEMP'' [] 20251004 None False,
          scenario_record ''E3'' ''ZZ'' ''AMZN'' [] 20251004 None True]),
      (''swaps.csv'',
         [scenario_record ''E1'' ''D1'' ''AMZN'' ''SWAP'' 20251004 (Some 20251003) True]),
      (''vet_vto.csv'',
         [scenario_record ''E4'' ''D1'' ''TEMP'' ''VET'' 20251004 None True])]"

section \<open>Properties\<close>

subsection \<open>Evaluation and frame lemmas\<close>

lemmas example_defs = example_result_def example_engine_def example_files_def
  example_settings_def example_py_env_def fresh_runtime_def example_app_def
  example_glue_env_def example_page_def initial_app_def run_events_def failing_engine_def
  failing_py_env_def failing_glue_env_def five_fields_def contract_args_def fresh_page_def
  early_click_events_def no_settings_events_def bundled_runtime_def seven_files_def
  crowded_app_def crowded_page_def malformed_result_def malformed_engine_def
  malformed_glue_env_def bundled_text_def home_py_env_def home_runtime_def home_app_def
  raising_py_env_def

lemmas engine_defs = build_def summarize_def by_type_def count_where_def bucket_def
  normalize_def category_of_def canonical_def table_of_def all_records_def effective_date_def
  on_date_def regular_for_date_def regular_present_total_def regular_expected_total_def
  scenario_settings_def scenario_record_def scenario_files_def

lemmas app_defs = boot_start_def boot_pyodide_def boot_settings_def log_def writeFile_def
  build_click_def build_try_def run_pyCode_def load_engine_module_def py_import_def
  engine_source_def
  py_reload_def path_join_def modname_def engine_path_def placeholder_def stamp_result_def
  record_call_def filesToPyTuples_def settings_py_def target_date_py_def getTargetDateISO_def
  trim_def is_js_space_def date_re_def reset_click_def

lemmas js_defs = get_prop_def nullish_def is_digit_def js_or_def js_key_order_def
  is_array_index_def dec_value_def Let_def

lemmas glue_defs = run_click_def buildData_def ensurePyodide_def loadEngine_def
  readSettings_def fileMap_of_def run_glue_pyCode_def note_call_def render_all_def
  renderSummaryBlock_def renderVetBlock_def renderSwapsBlock_def renderAuditBlock_def
  swaps_part_def block_def array_map_def summary_row_def vet_row_def swap_row_def or_zero_def
  or_empty_def present_cell_def add_to_string_def int_to_string_def file_map_to_py_def
  nat_digits.simps

lemma log_fields [simp]:
  "SETTINGS (log m st) = SETTINGS st"
  "pyodide (log m st) = pyodide st"
  "boot_pc (log m st) = boot_pc st"
  "fileInput (log m st) = fileInput st"
  "dateEl (log m st) = dateEl st"
  "alerts (log m st) = alerts st"
  "console (log m st) = console st"
  "engine_calls (log m st) = engine_calls st"
  by (simp_all add: log_def split: option.splits)

lemma record_call_fields [simp]:
  "SETTINGS (record_call c st) = SETTINGS st"
  "pyodide (record_call c st) = pyodide st"
  "boot_pc (record_call c st) = boot_pc st"
  "fileInput (record_call c st) = fileInput st"
  "dateEl (record_call c st) = dateEl st"
  "logEl (record_call c st) = logEl st"
  "alerts (record_call c st) = alerts st"
  "console (record_call c st) = console st"
  by (simp_all add: record_call_def split: option.splits)

lemma note_call_fields [simp]:
  "pyodidePromise (note_call c pg) = pyodidePromise pg"
  "status (note_call c pg) = status pg"
  "badge (note_call c pg) = badge pg"
  "summary_html (note_call c pg) = summary_html pg"
  "vet_html (note_call c pg) = vet_html pg"
  "swaps_html (note_call c pg) = swaps_html pg"
  "audit_html (note_call c pg) = audit_html pg"
  "fileInput_files (note_call c pg) = fileInput_files pg"
  "targetDate (note_call c pg) = targetDate pg"
  "page_alerts (note_call c pg) = page_alerts pg"
  by (simp_all add: note_call_def split: option.splits)

lemma ensurePyodide_fields:
  "ensurePyodide env pg = (pg1, r) \<Longrightarrow>
     status pg1 = status pg \<and> badge pg1 = badge pg \<and> summary_html pg1 = summary_html pg \<and>
     vet_html pg1 = vet_html pg \<and> swaps_html pg1 = swaps_html pg \<and>
     audit_html pg1 = audit_html pg \<and> fileInput_files pg1 = fileInput_files pg \<and>
     targetDate pg1 = targetDate pg \<and> page_alerts pg1 = page_alerts pg \<and>
     build_all_calls pg1 = build_all_calls pg"
  by (auto simp: ensurePyodide_def Let_def split: option.splits)

subsection \<open>The arguments of the engine call\<close>

lemma run_pyCode_args:
  "run_pyCode env rt f d s = (rt', c, r) \<Longrightarrow> c = None \<or> c = Some [f, d, s]"
  by (auto simp: run_pyCode_def Let_def split: prod.splits sum.splits option.splits)

lemma build_try_calls:
  "build_try env files st = (st', r) \<Longrightarrow>
     engine_calls st' = engine_calls st \<or>
     engine_calls st' =
       engine_calls st @
         [[filesToPyTuples files, PyStr (target_date_py (dateEl st)), settings_py (SETTINGS st)]]"
  by (auto simp: build_try_def Let_def record_call_def
           split: option.splits prod.splits sum.splits dest!: run_pyCode_args)

lemma build_click_calls:
  "engine_calls (build_click env st) = engine_calls st \<or>
   engine_calls (build_click env st) =
     engine_calls st @
       [[filesToPyTuples (case fileInput st of None \<Rightarrow> [] | Some fl \<Rightarrow> fl),
         PyStr (target_date_py (dateEl st)), settings_py (SETTINGS st)]]"
proof (cases "build_try env (case fileInput st of None \<Rightarrow> [] | Some fl \<Rightarrow> fl) st")
  case (Pair st' r)
  from build_try_calls [OF Pair] show ?thesis
    using Pair by (auto simp: build_click_def Let_def split: option.splits)
qed

lemma run_glue_pyCode_args:
  "run_glue_pyCode py fp s d = (c, r) \<Longrightarrow>
     c = None \<or> (\<exists>f sp. fp = Inr f \<and> proxy_to_py s = Inr sp \<and> c = Some [f, sp, PyStr d])"
  by (auto simp: run_glue_pyCode_def Let_def split: option.splits sum.splits)

lemma render_all_calls:
  "render_all data pg = (pg', r) \<Longrightarrow> build_all_calls pg' = build_all_calls pg"
  by (auto simp: render_all_def Let_def split: sum.splits)

lemma buildData_calls:
  "buildData env files pg = (pg', r) \<Longrightarrow>
     build_all_calls pg' = build_all_calls pg \<or>
     (\<exists>f s sp. file_map_to_py env files = Inr f \<and> settings_body env = Json s \<and>
        proxy_to_py s = Inr sp \<and>
        build_all_calls pg' = build_all_calls pg @ [[f, sp, PyStr (targetDate pg)]])"
  apply (simp add: buildData_def Let_def readSettings_def
           split: prod.splits sum.splits option.splits body_result.splits)
  apply (auto dest!: ensurePyodide_fields run_glue_pyCode_args simp: note_call_def)
  done

lemma run_click_calls:
  "build_all_calls (run_click env pg) = build_all_calls pg \<or>
     (\<exists>f s sp. file_map_to_py env (fileInput_files pg) = Inr f \<and>
        settings_body env = Json s \<and> proxy_to_py s = Inr sp \<and>
        build_all_calls (run_click env pg) =
          build_all_calls pg @ [[f, sp, PyStr (targetDate pg)]])"
proof (cases "buildData env (fileInput_files pg) pg")
  case (Pair pg1 r)
  note bd = buildData_calls [OF Pair]
  show ?thesis
  proof (cases r)
    case (Inl e)
    then show ?thesis using Pair bd by (auto simp: run_click_def Let_def)
  next
    case (Inr data)
    obtain pg2 r2 where ra: "render_all data pg1 = (pg2, r2)" by (cases "render_all data pg1")
    from render_all_calls [OF ra] show ?thesis
      using Pair Inr ra bd by (auto simp: run_click_def Let_def split: option.splits)
  qed
qed

subsection \<open>The target date\<close>

lemma match_date_re:
  "match_parts date_re s =
     (if ddmmyyyy_shape s then Some [take 2 s, take 2 (drop 3 s), drop 6 s] else None)"
  by (cases s rule: ddmmyyyy_shape.cases) (simp_all add: date_re_def)

lemma getTargetDateISO_shape:
  "getTargetDateISO el =
     (let raw = trim (case el of None \<Rightarrow> [] | Some v \<Rightarrow> v)
      in if ddmmyyyy_shape raw then Some (iso_of raw) else None)"
  unfolding getTargetDateISO_def Let_def match_date_re
  by (cases "trim (case el of None \<Rightarrow> [] | Some v \<Rightarrow> v)" rule: ddmmyyyy_shape.cases) simp_all

lemma digit_not_space: "is_digit c \<Longrightarrow> \<not> is_js_space c"
  by (auto simp: is_digit_def is_js_space_def)

lemma yyyymmdd_trim: "yyyymmdd_shape s \<Longrightarrow> trim s = s"
  by (cases s rule: yyyymmdd_shape.cases) (simp_all add: trim_def digit_not_space)

lemma yyyymmdd_not_ddmmyyyy: "yyyymmdd_shape s \<Longrightarrow> \<not> ddmmyyyy_shape s"
  by (cases s rule: yyyymmdd_shape.cases) (auto simp: is_digit_def)


text \<open>
  C9. In app.js, \<open>getTargetDateISO\<close> returns the rearranged date YYYY-MM-DD exactly
  when the trimmed value of the date input has the shape DD/MM/YYYY, and null for every
  other input, a text already of the form YYYY-MM-DD included; so the date the build
  hands to the engine is the rearranged date or, for every other input, the empty
  string. The alternative front end hands over the raw value of the input.
\<close>

theorem C9_target_date:
  "getTargetDateISO el =
     (let raw = trim (case el of None \<Rightarrow> [] | Some v \<Rightarrow> v)
      in if ddmmyyyy_shape raw then Some (iso_of raw) else None) \<and>
   (yyyymmdd_shape s \<longrightarrow> getTargetDateISO (Some s) = None) \<and>
   target_date_py el =
     (let raw = trim (case el of None \<Rightarrow> [] | Some v \<Rightarrow> v)
      in if ddmmyyyy_shape raw then iso_of raw else []) \<and>
   (engine_calls (build_click env st) = engine_calls st \<or>
    (\<exists>f sp. engine_calls (build_click env st) =
       engine_calls st @ [[f, PyStr (target_date_py (dateEl st)), sp]])) \<and>
   (build_all_calls (run_click genv pg) = build_all_calls pg \<or>
    (\<exists>f sp. build_all_calls (run_click genv pg) =
       build_all_calls pg @ [[f, sp, PyStr (targetDate pg)]]))"
proof (intro conjI impI)
  show "getTargetDateISO el =
     (let raw = trim (case el of None \<Rightarrow> [] | Some v \<Rightarrow> v)
      in if ddmmyyyy_shape raw then Some (iso_of raw) else None)"
    by (rule getTargetDateISO_shape)
next
  assume "yyyymmdd_shape s"
  then show "getTargetDateISO (Some s) = None"
    by (simp add: getTargetDateISO_shape yyyymmdd_trim yyyymmdd_not_ddmmyyyy)
next
  show "target_date_py el =
     (let raw = trim (case el of None \<Rightarrow> [] | Some v \<Rightarrow> v)
      in if ddmmyyyy_shape raw then iso_of raw else [])"
    by (simp add: target_date_py_def getTargetDateISO_shape Let_def)
next
  show "engine_calls (build_click env st) = engine_calls st \<or>
    (\<exists>f sp. engine_calls (build_click env st) =
       engine_calls st @ [[f, PyStr (target_date_py (dateEl st)), sp]])"
    using build_click_calls [of env st] by blast
next
  show "build_all_calls (run_click genv pg) = build_all_calls pg \<or>
    (\<exists>f sp. build_all_calls (run_click genv pg) =
       build_all_calls pg @ [[f, sp, PyStr (targetDate pg)]])"
    using run_click_calls [of genv pg] by blast
qed

theorem C9_target_date_witness:
  "getTargetDateISO (Some '' 04/10/2025  '') = Some ''2025-10-04'' \<and>
   yyyymmdd_shape ''2025-10-04'' \<and>
   getTargetDateISO (Some ''2025-10-04'') = None \<and>
   target_date_py (Some ''2025-10-04'') = [] \<and>
   engine_calls (build_click example_py_env example_app) =
     [[PyList [PyList [PyStr ''roster.csv'', PyBytes [101, 105, 100]]], PyStr ''2025-10-04'',
       PyDict [(''departments'', PyDict [(''D1'', PyStr ''Dock'')])]]] \<and>
   build_all_calls (run_click example_glue_env example_page) =
     [[PyDict [(''roster.csv'', PyBytes [101, 105, 100])],
       PyDict [(''departments'', PyDict [(''D1'', PyStr ''Dock'')])], PyStr ''2025-10-04'']]"
  using C9_target_date [of "Some '' 04/10/2025  ''" "''2025-10-04''" example_py_env example_app
      example_glue_env example_page]
  by (simp add: example_defs app_defs glue_defs js_defs)


text \<open>
  C1 (as amended). The two front ends do not pass the arguments in the same order.
  Every build of app.js calls the engine at most once, with the files first, the target
  date second and the settings last; every build of the alternative front end calls it
  at most once, in the order of the contract: files, settings, target date.
\<close>

theorem C1_call_sites:
  "(engine_calls (build_click env st) = engine_calls st \<or>
    engine_calls (build_click env st) =
      engine_calls st @
        [[filesToPyTuples (case fileInput st of None \<Rightarrow> [] | Some fl \<Rightarrow> fl),
          PyStr (target_date_py (dateEl st)), settings_py (SETTINGS st)]]) \<and>
   (build_all_calls (run_click genv pg) = build_all_calls pg \<or>
    (\<exists>f s sp. file_map_to_py genv (fileInput_files pg) = Inr f \<and>
       settings_body genv = Json s \<and> proxy_to_py s = Inr sp \<and>
       build_all_calls (run_click genv pg) =
         build_all_calls pg @ [contract_args f sp (PyStr (targetDate pg))]))"
  using build_click_calls [of env st] run_click_calls [of genv pg]
  unfolding contract_args_def by blast

theorem C1_call_sites_witness:
  "engine_calls (build_click example_py_env example_app) =
     [[filesToPyTuples example_files, PyStr ''2025-10-04'', toPy example_settings]] \<and>
   build_all_calls (run_click example_glue_env example_page) =
     [[PyDict [(''roster.csv'', PyBytes [101, 105, 100])], toPy example_settings,
       PyStr ''2025-10-04'']]"
  using C1_call_sites [of example_py_env example_app example_glue_env example_page]
  by (simp add: example_defs app_defs glue_defs js_defs)

text \<open>
  The claim as stated fails on app.js: with one file selected, the date 04/10/2025 typed
  and the settings loaded, the engine is called with the date in second place and the
  settings in third.
\<close>

theorem C1_counterexample:
  "engine_calls (build_click example_py_env example_app) =
     [[filesToPyTuples example_files, PyStr ''2025-10-04'', toPy example_settings]] \<and>
   engine_calls (build_click example_py_env example_app) \<noteq>
     [contract_args (filesToPyTuples example_files) (toPy example_settings) (PyStr ''2025-10-04'')]"
  by (simp add: example_defs app_defs js_defs)

subsection \<open>How many files reach the engine\<close>

lemma fileMap_fold:
  "distinct (map fst m) \<Longrightarrow>
     distinct (map fst (foldl (\<lambda>m f. AList.update (fst f) (snd f) m) m files)) \<and>
     set (map fst (foldl (\<lambda>m f. AList.update (fst f) (snd f) m) m files)) =
       set (map fst m) \<union> fst ` set files"
  by (induction files arbitrary: m) (auto simp: distinct_update dom_update)

lemma js_key_order_length: "length (js_key_order kvs) = length kvs"
  by (simp add: js_key_order_def sum_length_filter_compl)

lemma file_map_to_py_count:
  assumes "''__proto__'' \<notin> fst ` set files"
  shows "\<exists>m. file_map_to_py env files = Inr (PyDict m) \<and> length m = card (fst ` set files)"
proof -
  let ?m = "foldl (\<lambda>m f. AList.update (fst f) (snd f) m) [] files"
  from fileMap_fold [of "[]" files]
  have d: "distinct (map fst ?m)" and s: "set (map fst ?m) = fst ` set files"
    by simp_all
  from distinct_card [OF d] s have "length ?m = card (fst ` set files)" by simp
  with assms show ?thesis
    by (simp add: file_map_to_py_def fileMap_of_def js_key_order_length)
qed

lemma card_names_bounds:
  assumes ne: "files \<noteq> []"
  shows "1 \<le> card (fst ` set files) \<and> card (fst ` set files) \<le> length files"
proof -
  have "card (fst ` set files) \<le> card (set files)" by (rule card_image_le) simp
  also have "\<dots> \<le> length files" by (rule card_length)
  finally have up: "card (fst ` set files) \<le> length files" .
  from ne have "fst ` set files \<noteq> {}" by simp
  then have "0 < card (fst ` set files)" by (simp add: card_gt_0_iff)
  with up show ?thesis by simp
qed

lemma build_click_empty:
  "(case fileInput st of None \<Rightarrow> [] | Some fl \<Rightarrow> fl) = [] \<Longrightarrow>
     build_click env st = st\<lparr>alerts := alerts st @ [SelectCsvs]\<rparr>"
  by (simp add: build_click_def)

lemma run_click_empty:
  "fileInput_files pg = [] \<Longrightarrow> run_click env pg = pg\<lparr>page_alerts := page_alerts pg + 1\<rparr>"
  by (simp add: run_click_def)

lemma build_click_reaches:
  assumes "fileInput st = Some fl" "fl \<noteq> []" "pyodide st = Some rt"
    "load_engine_module env rt = (rt', Inr m)" "build_all_attr m = Some eng"
  shows "engine_calls (build_click env st) =
     engine_calls st @
       [[filesToPyTuples fl, PyStr (target_date_py (dateEl st)), settings_py (SETTINGS st)]]"
proof -
  let ?args = "[filesToPyTuples fl, PyStr (target_date_py (dateEl st)), settings_py (SETTINGS st)]"
  obtain r where run: "run_pyCode env rt (filesToPyTuples fl) (PyStr (target_date_py (dateEl st)))
      (settings_py (SETTINGS st)) = (rt', Some ?args, r)"
    using assms(4,5) by (simp add: run_pyCode_def Let_def)
  obtain st' res where bt: "build_try env fl st = (st', res)" by (cases "build_try env fl st")
  with assms(3) run have "engine_calls st' = engine_calls st @ [?args]"
    by (auto simp: build_try_def Let_def record_call_def split: sum.splits)
  with assms(1,2) bt show ?thesis
    by (auto simp: build_click_def Let_def split: option.splits)
qed

lemma run_click_calls_eq:
  "fileInput_files pg \<noteq> [] \<Longrightarrow>
     build_all_calls (run_click env pg) =
       build_all_calls (fst (buildData env (fileInput_files pg) pg))"
proof -
  assume ne: "fileInput_files pg \<noteq> []"
  obtain pg1 r where bd: "buildData env (fileInput_files pg) pg = (pg1, r)"
    by (cases "buildData env (fileInput_files pg) pg")
  show ?thesis
  proof (cases r)
    case (Inl e)
    with ne bd show ?thesis by (simp add: run_click_def Let_def)
  next
    case (Inr data)
    obtain pg2 r2 where ra: "render_all data pg1 = (pg2, r2)" by (cases "render_all data pg1")
    from render_all_calls [OF ra] ne bd Inr ra show ?thesis
      by (auto simp: run_click_def Let_def split: option.splits)
  qed
qed

lemma run_click_reaches:
  assumes "fileInput_files pg \<noteq> []"
    "ensurePyodide genv (pg\<lparr>status := StatusLoadingPyodide\<rparr>) = (pg1, Inr py)"
    "loadEngine genv py = (py', None)" "globals_build_all py' = Some eng"
    "readSettings genv = Inr s" "proxy_to_py s = Inr sp"
    "file_map_to_py genv (fileInput_files pg) = Inr f"
  shows "build_all_calls (run_click genv pg) =
     build_all_calls pg @ [[f, sp, PyStr (targetDate pg)]]"
proof -
  from ensurePyodide_fields [OF assms(2)] have c: "build_all_calls pg1 = build_all_calls pg"
    by simp
  have "build_all_calls (fst (buildData genv (fileInput_files pg) pg)) =
      build_all_calls pg @ [[f, sp, PyStr (targetDate pg)]]"
    using assms(2-7) c
    by (auto simp: buildData_def Let_def run_glue_pyCode_def note_call_def
             split: sum.splits prod.splits)
  with run_click_calls_eq [OF assms(1)] show ?thesis by simp
qed


text \<open>
  C8 (as amended). The front ends refuse only an empty selection, which gets an alert and
  nothing else. Every non-empty selection, of whatever size, goes to the engine whenever
  the engine can be reached: app.js hands over exactly as many entries as files are
  selected, the alternative front end one entry per distinct file name (at least one, at
  most the number selected) when no file is named \<open>__proto__\<close>. Neither enforces
  a lower bound of three or an upper bound of six.
\<close>

theorem C8_files_guard:
  "((case fileInput st of None \<Rightarrow> [] | Some fl \<Rightarrow> fl) = [] \<longrightarrow>
      build_click env st = st\<lparr>alerts := alerts st @ [SelectCsvs]\<rparr>) \<and>
   (fileInput st = Some fl \<and> fl \<noteq> [] \<and> pyodide st = Some rt \<and>
    load_engine_module env rt = (rt', Inr m) \<and> build_all_attr m = Some eng \<longrightarrow>
      engine_calls (build_click env st) =
        engine_calls st @
          [[filesToPyTuples fl, PyStr (target_date_py (dateEl st)), settings_py (SETTINGS st)]] \<and>
      files_count [filesToPyTuples fl, PyStr (target_date_py (dateEl st)),
                   settings_py (SETTINGS st)] = length fl) \<and>
   (engine_calls (build_click env st) = engine_calls st \<or>
    (\<exists>fl args. fileInput st = Some fl \<and> fl \<noteq> [] \<and>
       engine_calls (build_click env st) = engine_calls st @ [args] \<and>
       files_count args = length fl)) \<and>
   (fileInput_files pg = [] \<longrightarrow>
      run_click genv pg = pg\<lparr>page_alerts := page_alerts pg + 1\<rparr>) \<and>
   (fileInput_files pg \<noteq> [] \<and>
    ensurePyodide genv (pg\<lparr>status := StatusLoadingPyodide\<rparr>) = (pg1, Inr py) \<and>
    loadEngine genv py = (py', None) \<and> globals_build_all py' = Some geng \<and>
    readSettings genv = Inr s \<and> proxy_to_py s = Inr sp \<and>
    file_map_to_py genv (fileInput_files pg) = Inr f \<longrightarrow>
      build_all_calls (run_click genv pg) =
        build_all_calls pg @ [[f, sp, PyStr (targetDate pg)]]) \<and>
   (''__proto__'' \<notin> fst ` set files \<and> files \<noteq> [] \<longrightarrow>
      (\<exists>mp. file_map_to_py genv files = Inr (PyDict mp) \<and>
         length mp = card (fst ` set files) \<and> 1 \<le> length mp \<and> length mp \<le> length files)) \<and>
   (build_all_calls (run_click genv pg) = build_all_calls pg \<or>
    (\<exists>args. fileInput_files pg \<noteq> [] \<and>
       build_all_calls (run_click genv pg) = build_all_calls pg @ [args] \<and>
       (''__proto__'' \<notin> fst ` set (fileInput_files pg) \<longrightarrow>
          files_count args = card (fst ` set (fileInput_files pg)))))"
proof (intro conjI impI)
  assume "(case fileInput st of None \<Rightarrow> [] | Some fl \<Rightarrow> fl) = []"
  then show "build_click env st = st\<lparr>alerts := alerts st @ [SelectCsvs]\<rparr>"
    by (rule build_click_empty)
next
  assume a: "fileInput st = Some fl \<and> fl \<noteq> [] \<and> pyodide st = Some rt \<and>
    load_engine_module env rt = (rt', Inr m) \<and> build_all_attr m = Some eng"
  then show "engine_calls (build_click env st) =
        engine_calls st @
          [[filesToPyTuples fl, PyStr (target_date_py (dateEl st)), settings_py (SETTINGS st)]]"
    using build_click_reaches [of st fl rt env rt' m eng] by blast
  show "files_count [filesToPyTuples fl, PyStr (target_date_py (dateEl st)),
                   settings_py (SETTINGS st)] = length fl"
    by (simp add: filesToPyTuples_def)
next
  show "engine_calls (build_click env st) = engine_calls st \<or>
    (\<exists>fl args. fileInput st = Some fl \<and> fl \<noteq> [] \<and>
       engine_calls (build_click env st) = engine_calls st @ [args] \<and>
       files_count args = length fl)"
  proof (cases "(case fileInput st of None \<Rightarrow> [] | Some fl \<Rightarrow> fl) = []")
    case True
    then show ?thesis by (simp add: build_click_empty)
  next
    case False
    then obtain fl where fl: "fileInput st = Some fl" "fl \<noteq> []"
      by (auto split: option.splits)
    from build_click_calls [of env st] fl show ?thesis
      by (auto simp: filesToPyTuples_def)
  qed
next
  assume "fileInput_files pg = []"
  then show "run_click genv pg = pg\<lparr>page_alerts := page_alerts pg + 1\<rparr>"
    by (rule run_click_empty)
next
  assume "fileInput_files pg \<noteq> [] \<and>
    ensurePyodide genv (pg\<lparr>status := StatusLoadingPyodide\<rparr>) = (pg1, Inr py) \<and>
    loadEngine genv py = (py', None) \<and> globals_build_all py' = Some geng \<and>
    readSettings genv = Inr s \<and> proxy_to_py s = Inr sp \<and>
    file_map_to_py genv (fileInput_files pg) = Inr f"
  then show "build_all_calls (run_click genv pg) =
        build_all_calls pg @ [[f, sp, PyStr (targetDate pg)]]"
    using run_click_reaches [of pg genv pg1 py py' geng s sp f] by blast
next
  assume a: "''__proto__'' \<notin> fst ` set files \<and> files \<noteq> []"
  with file_map_to_py_count [of files genv] obtain mp where
    mp: "file_map_to_py genv files = Inr (PyDict mp)" "length mp = card (fst ` set files)"
    by blast
  from a card_names_bounds [of files] mp(2)
  have "1 \<le> length mp \<and> length mp \<le> length files" by simp
  with mp show "\<exists>mp. file_map_to_py genv files = Inr (PyDict mp) \<and>
         length mp = card (fst ` set files) \<and> 1 \<le> length mp \<and> length mp \<le> length files"
    by blast
next
  show "build_all_calls (run_click genv pg) = build_all_calls pg \<or>
    (\<exists>args. fileInput_files pg \<noteq> [] \<and>
       build_all_calls (run_click genv pg) = build_all_calls pg @ [args] \<and>
       (''__proto__'' \<notin> fst ` set (fileInput_files pg) \<longrightarrow>
          files_count args = card (fst ` set (fileInput_files pg))))"
  proof (cases "fileInput_files pg = []")
    case True
    then show ?thesis by (simp add: run_click_empty)
  next
    case False
    from run_click_calls [of genv pg] show ?thesis
    proof
      assume "build_all_calls (run_click genv pg) = build_all_calls pg"
      then show ?thesis by simp
    next
      assume "\<exists>f s sp. file_map_to_py genv (fileInput_files pg) = Inr f \<and>
        settings_body genv = Json s \<and> proxy_to_py s = Inr sp \<and>
        build_all_calls (run_click genv pg) =
          build_all_calls pg @ [[f, sp, PyStr (targetDate pg)]]"
      then obtain f s sp where h: "file_map_to_py genv (fileInput_files pg) = Inr f"
        "build_all_calls (run_click genv pg) = build_all_calls pg @ [[f, sp, PyStr (targetDate pg)]]"
        by blast
      have "''__proto__'' \<notin> fst ` set (fileInput_files pg) \<longrightarrow>
          files_count [f, sp, PyStr (targetDate pg)] = card (fst ` set (fileInput_files pg))"
      proof
        assume "''__proto__'' \<notin> fst ` set (fileInput_files pg)"
        from file_map_to_py_count [OF this, of genv] h(1)
        show "files_count [f, sp, PyStr (targetDate pg)] = card (fst ` set (fileInput_files pg))"
          by auto
      qed
      with False h(2) show ?thesis by blast
    qed
  qed
qed

theorem C8_files_guard_witness:
  "fileInput crowded_app = Some seven_files \<and> length seven_files = 7 \<and>
   card (fst ` set seven_files) = 7 \<and>
   build_all_attr (PyModule (Some example_engine)) = Some example_engine \<and>
   map files_count (engine_calls (build_click example_py_env crowded_app)) = [7] \<and>
   fileInput_files crowded_page = seven_files \<and>
   map files_count (build_all_calls (run_click example_glue_env crowded_page)) = [7] \<and>
   alerts (build_click example_py_env (crowded_app\<lparr>fileInput := Some []\<rparr>)) =
     alerts crowded_app @ [SelectCsvs] \<and>
   page_alerts (run_click example_glue_env (crowded_page\<lparr>fileInput_files := []\<rparr>)) =
     page_alerts crowded_page + 1"
  using C8_files_guard [where st = crowded_app and env = example_py_env and fl = seven_files
      and rt = "the (pyodide crowded_app)"
      and rt' = "fst (load_engine_module example_py_env (the (pyodide crowded_app)))"
      and m = "PyModule (Some example_engine)" and eng = example_engine
      and pg = crowded_page and genv = example_glue_env and files = seven_files]
    C8_files_guard [where st = "crowded_app\<lparr>fileInput := Some []\<rparr>" and env = example_py_env
      and pg = "crowded_page\<lparr>fileInput_files := []\<rparr>" and genv = example_glue_env]
  by (simp add: example_defs app_defs glue_defs
      js_defs)

text \<open>
  The claim as stated fails: with a single file selected, and with seven, each front end
  calls the engine, with one file and with seven.
\<close>

theorem C8_counterexample:
  "map files_count (engine_calls (build_click example_py_env example_app)) = [1] \<and>
   map files_count (build_all_calls (run_click example_glue_env example_page)) = [1] \<and>
   map files_count (engine_calls (build_click example_py_env crowded_app)) = [7] \<and>
   map files_count (build_all_calls (run_click example_glue_env crowded_page)) = [7] \<and>
   \<not> list_all (\<lambda>args. 3 \<le> files_count args \<and> files_count args \<le> 6)
        (engine_calls (build_click example_py_env example_app)) \<and>
   \<not> list_all (\<lambda>args. 3 \<le> files_count args \<and> files_count args \<le> 6)
        (build_all_calls (run_click example_glue_env example_page)) \<and>
   \<not> list_all (\<lambda>args. 3 \<le> files_count args \<and> files_count args \<le> 6)
        (engine_calls (build_click example_py_env crowded_app)) \<and>
   \<not> list_all (\<lambda>args. 3 \<le> files_count args \<and> files_count args \<le> 6)
        (build_all_calls (run_click example_glue_env crowded_page))"
  by (simp add: example_defs app_defs glue_defs
      js_defs)

subsection \<open>The fields of the result\<close>












subsection \<open>A failed build\<close>

lemma buildData_failed_frame:
  "buildData env files pg = (pg1, Inl e) \<Longrightarrow>
     summary_html pg1 = summary_html pg \<and> vet_html pg1 = vet_html pg \<and>
     swaps_html pg1 = swaps_html pg \<and> audit_html pg1 = audit_html pg \<and> badge pg1 = badge pg"
  apply (simp add: buildData_def Let_def split: prod.splits sum.splits option.splits)
  apply (auto dest!: ensurePyodide_fields)
  done

lemma build_try_alerts:
  "build_try env files st = (st', r) \<Longrightarrow> alerts st' = alerts st"
  by (auto simp: build_try_def Let_def split: option.splits prod.splits sum.splits)

lemma build_try_failed_console:
  "build_try env files st = (st', Some e) \<Longrightarrow> console st' = console st"
  by (auto simp: build_try_def Let_def split: option.splits prod.splits sum.splits)

lemma build_try_failed_log:
  "build_try env files st = (st', Some e) \<Longrightarrow>
     logEl st' = logEl st \<or> logEl st' = map_option (\<lambda>ls. ls @ [Building]) (logEl st)"
  by (auto simp: build_try_def Let_def log_def record_call_def
           split: option.splits prod.splits sum.splits)

lemma results_logged_append [simp]:
  "results_logged (xs @ ys) = results_logged xs @ results_logged ys"
  by (induction xs rule: results_logged.induct) simp_all

lemma buildData_ok_frame:
  "buildData env files pg = (pg1, Inr data) \<Longrightarrow>
     summary_html pg1 = summary_html pg \<and> vet_html pg1 = vet_html pg \<and>
     swaps_html pg1 = swaps_html pg \<and> audit_html pg1 = audit_html pg \<and>
     status pg1 = StatusDone \<and>
     (\<exists>g. get_prop data ''generated_at'' = Inr g \<and>
          badge pg1 = DataAsOf (to_string (js_or g (Str (now_iso env)))))"
  apply (simp add: buildData_def Let_def split: prod.splits sum.splits option.splits)
  apply (auto dest!: ensurePyodide_fields)
  done

lemma render_all_frame:
  "render_all data pg = (pg2, r) \<Longrightarrow> status pg2 = status pg \<and> badge pg2 = badge pg"
  by (auto simp: render_all_def Let_def split: sum.splits)

lemma render_all_failed:
  "render_all data pg = (pg2, Some e) \<Longrightarrow>
     swaps_html pg2 = swaps_html pg \<and> audit_html pg2 = audit_html pg \<and>
     summary_html pg2 =
       (case renderSummaryBlock (js_or (js_prop data ''dept_summary'') (Obj [])) of
          Inl x \<Rightarrow> summary_html pg | Inr h \<Rightarrow> h) \<and>
     vet_html pg2 =
       (case renderSummaryBlock (js_or (js_prop data ''dept_summary'') (Obj [])) of
          Inl x \<Rightarrow> vet_html pg
        | Inr h \<Rightarrow>
            (case renderVetBlock (js_or (js_prop data ''vet_vto'') (Obj [(''records'', Arr [])])) of
               Inl x \<Rightarrow> vet_html pg | Inr h2 \<Rightarrow> h2))"
  by (auto simp: render_all_def Let_def split: sum.splits)


text \<open>
  C5 (as amended). In the alternative front end a build can fail in two places. When
  \<open>buildData\<close> throws (whatever step of it fails), the status line shows the error
  and the summary, VET/VTO, swaps and audit blocks and the badge stay exactly as they
  were. When \<open>buildData\<close> returns and a renderer then throws on the result, the status
  line shows the error as well, but the badge already carries the date of the new
  result and every block rendered before the failing renderer carries the new content;
  the blocks from the failing renderer on stay as they were. When nothing throws, the
  status line reads Done. In app.js, when the build throws, the error is printed, logged
  and shown in an alert, and no result is printed; app.js renders no report at all.
\<close>

theorem C5_failed_build:
  "(fileInput_files pg \<noteq> [] \<and> buildData genv (fileInput_files pg) pg = (pg1, Inl ge) \<longrightarrow>
      status (run_click genv pg) = StatusError ge \<and>
      summary_html (run_click genv pg) = summary_html pg \<and>
      vet_html (run_click genv pg) = vet_html pg \<and>
      swaps_html (run_click genv pg) = swaps_html pg \<and>
      audit_html (run_click genv pg) = audit_html pg \<and>
      badge (run_click genv pg) = badge pg) \<and>
   (fileInput_files pg \<noteq> [] \<and> buildData genv (fileInput_files pg) pg = (pg1, Inr data) \<and>
    render_all data pg1 = (pg2, Some re) \<longrightarrow>
      status (run_click genv pg) = StatusError re \<and>
      (\<exists>g. get_prop data ''generated_at'' = Inr g \<and>
           badge (run_click genv pg) = DataAsOf (to_string (js_or g (Str (now_iso genv))))) \<and>
      summary_html (run_click genv pg) =
        (case renderSummaryBlock (js_or (js_prop data ''dept_summary'') (Obj [])) of
           Inl x \<Rightarrow> summary_html pg | Inr h \<Rightarrow> h) \<and>
      vet_html (run_click genv pg) =
        (case renderSummaryBlock (js_or (js_prop data ''dept_summary'') (Obj [])) of
           Inl x \<Rightarrow> vet_html pg
         | Inr h \<Rightarrow>
             (case renderVetBlock
                     (js_or (js_prop data ''vet_vto'') (Obj [(''records'', Arr [])])) of
                Inl x \<Rightarrow> vet_html pg | Inr h2 \<Rightarrow> h2)) \<and>
      swaps_html (run_click genv pg) = swaps_html pg \<and>
      audit_html (run_click genv pg) = audit_html pg) \<and>
   (fileInput_files pg \<noteq> [] \<and> buildData genv (fileInput_files pg) pg = (pg1, Inr data) \<and>
    render_all data pg1 = (pg2, None) \<longrightarrow>
      status (run_click genv pg) = StatusDone) \<and>
   (fileInput st = Some fl \<and> fl \<noteq> [] \<and> build_try env fl st = (st1, Some e) \<longrightarrow>
      alerts (build_click env st) = alerts st @ [BuildFailed e] \<and>
      console (build_click env st) = console st @ [ConsoleError e] \<and>
      results_logged (console (build_click env st)) = results_logged (console st) \<and>
      (logEl (build_click env st) = map_option (\<lambda>ls. ls @ [ErrorMsg e]) (logEl st) \<or>
       logEl (build_click env st) =
         map_option (\<lambda>ls. ls @ [Building, ErrorMsg e]) (logEl st)))"
proof (intro conjI impI)
  assume a: "fileInput_files pg \<noteq> [] \<and> buildData genv (fileInput_files pg) pg = (pg1, Inl ge)"
  then have rc: "run_click genv pg = pg1\<lparr>status := StatusError ge\<rparr>"
    by (simp add: run_click_def Let_def)
  from a buildData_failed_frame [of genv "fileInput_files pg" pg pg1 ge]
  have fr: "summary_html pg1 = summary_html pg" "vet_html pg1 = vet_html pg"
    "swaps_html pg1 = swaps_html pg" "audit_html pg1 = audit_html pg" "badge pg1 = badge pg"
    by simp_all
  show "status (run_click genv pg) = StatusError ge" by (simp add: rc)
  show "summary_html (run_click genv pg) = summary_html pg" by (simp add: rc fr)
  show "vet_html (run_click genv pg) = vet_html pg" by (simp add: rc fr)
  show "swaps_html (run_click genv pg) = swaps_html pg" by (simp add: rc fr)
  show "audit_html (run_click genv pg) = audit_html pg" by (simp add: rc fr)
  show "badge (run_click genv pg) = badge pg" by (simp add: rc fr)
next
  assume a: "fileInput_files pg \<noteq> [] \<and>
    buildData genv (fileInput_files pg) pg = (pg1, Inr data) \<and>
    render_all data pg1 = (pg2, Some re)"
  then have rc: "run_click genv pg = pg2\<lparr>status := StatusError re\<rparr>"
    by (simp add: run_click_def Let_def)
  from a buildData_ok_frame [of genv "fileInput_files pg" pg pg1 data]
  obtain g where fr: "summary_html pg1 = summary_html pg" "vet_html pg1 = vet_html pg"
    "swaps_html pg1 = swaps_html pg" "audit_html pg1 = audit_html pg"
    and g: "get_prop data ''generated_at'' = Inr g"
      "badge pg1 = DataAsOf (to_string (js_or g (Str (now_iso genv))))"
    by blast
  from a have ra: "render_all data pg1 = (pg2, Some re)" by simp
  note rf = render_all_failed [OF ra] and rb = render_all_frame [OF ra]
  show "status (run_click genv pg) = StatusError re" by (simp add: rc)
  show "\<exists>g. get_prop data ''generated_at'' = Inr g \<and>
           badge (run_click genv pg) = DataAsOf (to_string (js_or g (Str (now_iso genv))))"
    using g rb by (simp add: rc)
  show "summary_html (run_click genv pg) =
        (case renderSummaryBlock (js_or (js_prop data ''dept_summary'') (Obj [])) of
           Inl x \<Rightarrow> summary_html pg | Inr h \<Rightarrow> h)"
    using rf by (simp add: rc fr split: sum.splits)
  show "vet_html (run_click genv pg) =
        (case renderSummaryBlock (js_or (js_prop data ''dept_summary'') (Obj [])) of
           Inl x \<Rightarrow> vet_html pg
         | Inr h \<Rightarrow>
             (case renderVetBlock
                     (js_or (js_prop data ''vet_vto'') (Obj [(''records'', Arr [])])) of
                Inl x \<Rightarrow> vet_html pg | Inr h2 \<Rightarrow> h2))"
    using rf by (simp add: rc fr split: sum.splits)
  show "swaps_html (run_click genv pg) = swaps_html pg" using rf by (simp add: rc fr)
  show "audit_html (run_click genv pg) = audit_html pg" using rf by (simp add: rc fr)
next
  assume a: "fileInput_files pg \<noteq> [] \<and>
    buildData genv (fileInput_files pg) pg = (pg1, Inr data) \<and>
    render_all data pg1 = (pg2, None)"
  then have rc: "run_click genv pg = pg2" by (simp add: run_click_def Let_def)
  from a buildData_ok_frame [of genv "fileInput_files pg" pg pg1 data]
  have "status pg1 = StatusDone" by blast
  moreover from a render_all_frame [of data pg1 pg2 None] have "status pg2 = status pg1"
    by simp
  ultimately show "status (run_click genv pg) = StatusDone" by (simp add: rc)
next
  assume a: "fileInput st = Some fl \<and> fl \<noteq> [] \<and> build_try env fl st = (st1, Some e)"
  then have bt: "build_try env fl st = (st1, Some e)" by simp
  let ?st2 = "log (ErrorMsg e) (st1\<lparr>console := console st1 @ [ConsoleError e]\<rparr>)"
  from a have bc: "build_click env st = ?st2\<lparr>alerts := alerts ?st2 @ [BuildFailed e]\<rparr>"
    by (simp add: build_click_def Let_def)
  show "alerts (build_click env st) = alerts st @ [BuildFailed e]"
    using build_try_alerts [OF bt] by (simp add: bc)
  show c: "console (build_click env st) = console st @ [ConsoleError e]"
    using build_try_failed_console [OF bt] by (simp add: bc)
  show "results_logged (console (build_click env st)) = results_logged (console st)"
    by (simp add: c)
  show "logEl (build_click env st) = map_option (\<lambda>ls. ls @ [ErrorMsg e]) (logEl st) \<or>
       logEl (build_click env st) =
         map_option (\<lambda>ls. ls @ [Building, ErrorMsg e]) (logEl st)"
    using build_try_failed_log [OF bt] by (cases "logEl st") (auto simp: bc log_def)
qed

theorem C5_failed_build_witness:
  "fileInput_files example_page \<noteq> [] \<and>
   snd (buildData failing_glue_env (fileInput_files example_page) example_page) =
     Inl (PythonError (Raised ''roster.csv: column eid is missing'')) \<and>
   status (run_click failing_glue_env example_page) =
     StatusError (PythonError (Raised ''roster.csv: column eid is missing'')) \<and>
   summary_html (run_click failing_glue_env example_page) =
     SummaryHtml [[''D9'', ''4'', ''3'', ''0'', ''0'', ''0'', ''0'', ''0'', ''0'']] \<and>
   snd (render_all
          (projr (snd (buildData malformed_glue_env (fileInput_files example_page) example_page)))
          (fst (buildData malformed_glue_env (fileInput_files example_page) example_page))) =
     Some TypeError \<and>
   status (run_click malformed_glue_env example_page) = StatusError TypeError \<and>
   swaps_html (run_click malformed_glue_env example_page) = SwapsHtml [] \<and>
   status (run_click example_glue_env example_page) = StatusDone \<and>
   fileInput example_app = Some example_files \<and>
   snd (build_try failing_py_env example_files example_app) =
     Some (PythonError (Raised ''roster.csv: column eid is missing'')) \<and>
   alerts (build_click failing_py_env example_app) =
     [BuildFailed (PythonError (Raised ''roster.csv: column eid is missing''))] \<and>
   results_logged (console (build_click failing_py_env example_app)) = []"
  using C5_failed_build [where pg = example_page and genv = failing_glue_env
      and ?pg1.0 = "fst (buildData failing_glue_env (fileInput_files example_page) example_page)"
      and ge = "PythonError (Raised ''roster.csv: column eid is missing'')"
      and st = example_app and fl = example_files and env = failing_py_env
      and ?st1.0 = "fst (build_try failing_py_env example_files example_app)"
      and e = "PythonError (Raised ''roster.csv: column eid is missing'')"]
    C5_failed_build [where pg = example_page and genv = malformed_glue_env
      and ?pg1.0 = "fst (buildData malformed_glue_env (fileInput_files example_page) example_page)"
      and data = "projr (snd (buildData malformed_glue_env (fileInput_files example_page)
                                 example_page))"
      and ?pg2.0 = "fst (render_all
          (projr (snd (buildData malformed_glue_env (fileInput_files example_page) example_page)))
          (fst (buildData malformed_glue_env (fileInput_files example_page) example_page)))"
      and re = TypeError]
    C5_failed_build [where pg = example_page and genv = example_glue_env
      and ?pg1.0 = "fst (buildData example_glue_env (fileInput_files example_page) example_page)"
      and data = "projr (snd (buildData example_glue_env (fileInput_files example_page)
                                 example_page))"
      and ?pg2.0 = "fst (render_all
          (projr (snd (buildData example_glue_env (fileInput_files example_page) example_page)))
          (fst (buildData example_glue_env (fileInput_files example_page) example_page)))"]
  by (simp add: example_defs app_defs glue_defs js_defs)

text \<open>
  The claim as stated fails: an engine returns a result whose VET/VTO records are a
  number. The run ends with an error on the status line, the summary block and the badge
  hold the output of that build, and the VET/VTO and swaps blocks hold what they held
  before.
\<close>

theorem C5_counterexample:
  "status (run_click malformed_glue_env example_page) = StatusError TypeError \<and>
   summary_html example_page =
     SummaryHtml [[''D9'', ''4'', ''3'', ''0'', ''0'', ''0'', ''0'', ''0'', ''0'']] \<and>
   summary_html (run_click malformed_glue_env example_page) =
     SummaryHtml [[''D1'', ''2'', ''2'', ''0'', ''0'', ''0'', ''0'', ''0'', ''0'']] \<and>
   badge example_page = BadgeInitial \<and>
   badge (run_click malformed_glue_env example_page) = DataAsOf ''2025-10-04T12:00:00'' \<and>
   vet_html (run_click malformed_glue_env example_page) = vet_html example_page \<and>
   swaps_html (run_click malformed_glue_env example_page) = swaps_html example_page"
  by (simp add: example_defs glue_defs js_defs)


subsection \<open>The settings document is absent\<close>

text \<open>
  C4, evaluated. When the fetch of settings.json fails, or its body is not JSON, the
  alternative front end stops in \<open>readSettings\<close>: the engine is not called, the
  status line shows the error and the report blocks stay as they were. app.js, on the
  same failure, goes on and calls the engine with \<open>None\<close> for the settings.
\<close>

theorem C4_settings_absent:
  "status (run_click (example_glue_env\<lparr>settings_body := Rejected\<rparr>) example_page) =
     StatusError NetworkError \<and>
   build_all_calls (run_click (example_glue_env\<lparr>settings_body := Rejected\<rparr>) example_page) = [] \<and>
   summary_html (run_click (example_glue_env\<lparr>settings_body := Rejected\<rparr>) example_page) =
     summary_html example_page \<and>
   status (run_click (example_glue_env\<lparr>settings_body := NotJson\<rparr>) example_page) =
     StatusError SyntaxError \<and>
   build_all_calls (run_click (example_glue_env\<lparr>settings_body := NotJson\<rparr>) example_page) = [] \<and>
   engine_calls (run_events example_py_env fresh_page no_settings_events) =
     [[filesToPyTuples example_files, PyStr [], PyNone]] \<and>
   logEl (run_events example_py_env fresh_page no_settings_events) =
     Some [LoadingPyodide, PyodideReady, SettingsFetchFailed, Building,
           BuiltOK (Str ''<unknown>'')]"
  by (simp add: example_defs app_defs glue_defs js_defs)

subsection \<open>The module file and the builds\<close>

lemma boot_settings_booted:
  "boot_pc st = AwaitSettings \<Longrightarrow> pyodide st = Some rt \<Longrightarrow> booted (boot_settings r st)"
  by (cases r) (simp_all add: booted_def boot_settings_def Let_def writeFile_def)

lemma full_boot_booted:
  "boot_pc st = NotStarted \<Longrightarrow>
     booted (boot_settings r (boot_pyodide (Some rt) (boot_start st)))"
  by (rule boot_settings_booted [where rt = rt])
     (simp_all add: boot_start_def boot_pyodide_def)

lemma load_engine_module_fs:
  "load_engine_module env rt = (rt', r) \<Longrightarrow> fs rt' = fs rt"
  by (auto simp: load_engine_module_def py_import_def py_reload_def Let_def
           split: option.splits prod.splits)

lemma run_pyCode_fs:
  "run_pyCode env rt f d s = (rt', c, r) \<Longrightarrow> fs rt' = fs rt"
  by (auto simp: run_pyCode_def Let_def split: prod.splits sum.splits option.splits
           dest: load_engine_module_fs)

lemma build_try_booted:
  "build_try env files st = (st', r) \<Longrightarrow> booted st \<Longrightarrow> booted st'"
  by (auto simp: build_try_def booted_def Let_def
           split: option.splits prod.splits sum.splits dest: run_pyCode_fs)

lemma build_click_booted:
  assumes b: "booted st"
  shows "booted (build_click env st)"
proof -
  let ?fl = "case fileInput st of None \<Rightarrow> [] | Some fl \<Rightarrow> fl"
  obtain st' r where bt: "build_try env ?fl st = (st', r)"
    by (cases "build_try env ?fl st")
  from build_try_booted [OF bt b] have b': "booted st'" .
  then have "booted ((log (ErrorMsg e) (st'\<lparr>console := console st' @ [ConsoleError e]\<rparr>))
                \<lparr>alerts := xs\<rparr>)" for e xs
    by (simp add: booted_def log_def split: option.splits)
  with b b' bt show ?thesis
    by (auto simp: build_click_def Let_def booted_def split: option.splits)
qed

lemma step_booted:
  assumes b: "booted st"
  shows "booted (step env st ev)"
proof (cases ev)
  case BuildClick
  with b show ?thesis by (simp add: build_click_booted)
next
  case ResetClick
  with b show ?thesis
    by (auto simp: reset_click_def booted_def log_def split: option.splits)
qed (use b in \<open>auto simp: booted_def boot_start_def boot_pyodide_def boot_settings_def
                  split: option.splits\<close>)

lemma run_events_booted: "booted st \<Longrightarrow> booted (run_events env st evs)"
  unfolding run_events_def
  by (induction evs arbitrary: st) (simp_all add: step_booted)

lemma load_from_source:
  "engine_source env rt = Some src \<Longrightarrow>
     snd (load_engine_module env rt) =
       (case exec_module env src of
          (m, Some e) \<Rightarrow> Inl e
        | (m, None) \<Rightarrow>
            Inr (case sys_modules rt modname of
                   None \<Rightarrow> m
                 | Some old \<Rightarrow>
                     PyModule (case build_all_attr m of
                                 None \<Rightarrow> build_all_attr old | Some f \<Rightarrow> Some f)))"
  by (auto simp: load_engine_module_def py_import_def py_reload_def Let_def
           split: option.splits prod.splits)

lemma find_module_skip:
  "\<forall>x\<in>set ds. files (path_join x (m @ ''.py'')) = None \<Longrightarrow>
     find_module (ds @ rest) files m = find_module rest files m"
  by (induction ds) simp_all

lemma find_module_indep:
  "p \<notin> set (map (\<lambda>d. path_join d (m @ ''.py'')) ds) \<Longrightarrow>
     find_module ds (files(p := x)) m = find_module ds files m"
  by (induction ds) (auto split: option.splits)

lemma booted_source:
  assumes "booted st" "pyodide st = Some rt" "sys_path env = ds @ d # rest"
    "path_join d (modname @ ''.py'') = engine_path"
    "\<forall>x\<in>set ds. fs rt (path_join x (modname @ ''.py'')) = None"
  shows "engine_source env rt = Some placeholder"
proof -
  from assms(1,2) have "fs rt engine_path = Some placeholder" by (simp add: booted_def)
  with assms(4) have "find_module (d # rest) (fs rt) modname = Some placeholder" by simp
  with find_module_skip [OF assms(5), of "d # rest"] assms(3) show ?thesis
    by (simp add: engine_source_def)
qed

lemma source_indep:
  "engine_path \<notin> set (map (\<lambda>d. path_join d (modname @ ''.py'')) (sys_path env)) \<Longrightarrow>
     engine_source env (rt\<lparr>fs := (fs rt)(engine_path := x)\<rparr>) = engine_source env rt"
  by (simp add: engine_source_def find_module_indep)

lemma build_click_no_source:
  assumes "fileInput st = Some fl" "fl \<noteq> []" "pyodide st = Some rt" "engine_source env rt = None"
  shows "alerts (build_click env st) = alerts st @ [BuildFailed (PythonError ModuleNotFoundError)] \<and>
         engine_calls (build_click env st) = engine_calls st"
proof -
  from assms(4) have "load_engine_module env rt = (rt, Inl ModuleNotFoundError)"
    by (simp add: load_engine_module_def py_import_def py_reload_def split: option.splits)
  then have "run_pyCode env rt f d s = (rt, None, Inl ModuleNotFoundError)" for f d s
    by (simp add: run_pyCode_def)
  with assms(1-3) show ?thesis
    by (simp add: build_click_def build_try_def Let_def record_call_def log_def
             split: option.splits)
qed

lemma build_click_source_raises:
  assumes "fileInput st = Some fl" "fl \<noteq> []" "pyodide st = Some rt"
    "engine_source env rt = Some src" "exec_module env src = (m, Some e)"
  shows "alerts (build_click env st) = alerts st @ [BuildFailed (PythonError e)] \<and>
         engine_calls (build_click env st) = engine_calls st"
proof -
  from assms(4,5) obtain rt' where "load_engine_module env rt = (rt', Inl e)"
    by (cases "sys_modules rt modname")
       (auto simp: load_engine_module_def py_import_def py_reload_def Let_def)
  then have "run_pyCode env rt f d s = (rt', None, Inl e)" for f d s
    by (simp add: run_pyCode_def)
  with assms(1-3) show ?thesis
    by (simp add: build_click_def build_try_def Let_def record_call_def log_def
             split: option.splits)
qed

lemma build_click_source_runs:
  assumes "fileInput st = Some fl" "fl \<noteq> []" "pyodide st = Some rt"
    "engine_source env rt = Some src" "exec_module env src = (m, None)"
    "build_all_attr m = Some eng"
  shows "engine_calls (build_click env st) =
           engine_calls st @
             [[filesToPyTuples fl, PyStr (target_date_py (dateEl st)), settings_py (SETTINGS st)]] \<and>
         (eng [filesToPyTuples fl, PyStr (target_date_py (dateEl st)), settings_py (SETTINGS st)]
            = Inl e \<longrightarrow>
          alerts (build_click env st) = alerts st @ [BuildFailed (PythonError e)])"
proof -
  from assms(4-6) obtain rt' m' where l: "load_engine_module env rt = (rt', Inr m')"
    "build_all_attr m' = Some eng"
    by (cases "sys_modules rt modname")
       (auto simp: load_engine_module_def py_import_def py_reload_def Let_def)
  let ?args = "[filesToPyTuples fl, PyStr (target_date_py (dateEl st)), settings_py (SETTINGS st)]"
  obtain r where r: "run_pyCode env rt (filesToPyTuples fl) (PyStr (target_date_py (dateEl st)))
      (settings_py (SETTINGS st)) = (rt', Some ?args, r)"
    "eng ?args = Inl e \<longrightarrow> r = Inl e"
    using l by (simp add: run_pyCode_def Let_def)
  obtain st' x where bt: "build_try env fl st = (st', x)" by (cases "build_try env fl st")
  with r assms(3) have
    "engine_calls st' = engine_calls st @ [?args] \<and> alerts st' = alerts st \<and>
     (eng ?args = Inl e \<longrightarrow> x = Some (PythonError e))"
    by (auto simp: build_try_def Let_def record_call_def log_def
             split: option.splits sum.splits)
  with bt assms(1,2) show ?thesis
    by (auto simp: build_click_def Let_def log_def split: option.splits)
qed


lemma build_click_no_attr:
  assumes "fileInput st = Some fl" "fl \<noteq> []" "pyodide st = Some rt"
    "engine_source env rt = Some src" "exec_module env src = (m, None)"
    "build_all_attr m = None" "sys_modules rt modname = None"
  shows "alerts (build_click env st) = alerts st @ [BuildFailed (PythonError AttributeError)] \<and>
         engine_calls (build_click env st) = engine_calls st"
proof -
  from assms(4-7) obtain rt' where "load_engine_module env rt = (rt', Inr m)"
    by (simp add: load_engine_module_def py_import_def)
  with assms(6) have "run_pyCode env rt f d s = (rt', None, Inl AttributeError)" for f d s
    by (simp add: run_pyCode_def)
  with assms(1-3) show ?thesis
    by (simp add: build_click_def build_try_def Let_def record_call_def log_def
             split: option.splits)
qed

text \<open>
  C10 (as amended). Every boot of app.js that gets its runtime writes the placeholder
  text to /engine_pyodide.py when the fetch of settings.json has settled, whatever that
  fetch gave and whatever the file held, and from then on the file keeps that text
  through every click and edit. Every build imports the module (the first time) or
  reloads it (afterwards) from the text Python's module search finds: the file of the
  first directory of the search path that holds engine_pyodide.py. That text is the
  placeholder when the root directory is on the path and no directory before it holds
  such a file; when the root directory is not on the path the written file is never
  read. The build fails with ModuleNotFoundError when no text is found and with the
  exception the text raises when executing it raises; when the text defines
  \<open>build_all\<close>, the build calls that function. A build clicked before the write,
  while \<open>boot\<close> awaits settings.json, runs against the file system as the runtime
  came.
\<close>

theorem C10_placeholder_module:
  "(boot_pc st0 = NotStarted \<longrightarrow>
      booted (boot_settings r (boot_pyodide (Some rt0) (boot_start st0)))) \<and>
   (booted st \<longrightarrow> booted (run_events env st evs)) \<and>
   (booted st \<and> pyodide st = Some rt \<and> sys_path env = ds @ d # rest \<and>
    path_join d (modname @ ''.py'') = engine_path \<and>
    (\<forall>x\<in>set ds. fs rt (path_join x (modname @ ''.py'')) = None) \<longrightarrow>
      engine_source env rt = Some placeholder) \<and>
   (engine_path \<notin> set (map (\<lambda>d. path_join d (modname @ ''.py'')) (sys_path env)) \<longrightarrow>
      engine_source env (rt\<lparr>fs := (fs rt)(engine_path := x)\<rparr>) = engine_source env rt) \<and>
   (engine_source env rt = Some src \<longrightarrow>
      snd (load_engine_module env rt) =
        (case exec_module env src of
           (m, Some e) \<Rightarrow> Inl e
         | (m, None) \<Rightarrow>
             Inr (case sys_modules rt modname of
                    None \<Rightarrow> m
                  | Some old \<Rightarrow>
                      PyModule (case build_all_attr m of
                                  None \<Rightarrow> build_all_attr old | Some f \<Rightarrow> Some f)))) \<and>
   (fileInput st = Some fl \<and> fl \<noteq> [] \<and> pyodide st = Some rt \<and>
    engine_source env rt = None \<longrightarrow>
      alerts (build_click env st) =
        alerts st @ [BuildFailed (PythonError ModuleNotFoundError)] \<and>
      engine_calls (build_click env st) = engine_calls st) \<and>
   (fileInput st = Some fl \<and> fl \<noteq> [] \<and> pyodide st = Some rt \<and>
    engine_source env rt = Some src \<and> exec_module env src = (m, Some e) \<longrightarrow>
      alerts (build_click env st) = alerts st @ [BuildFailed (PythonError e)] \<and>
      engine_calls (build_click env st) = engine_calls st) \<and>
   (fileInput st = Some fl \<and> fl \<noteq> [] \<and> pyodide st = Some rt \<and>
    engine_source env rt = Some src \<and> exec_module env src = (m, None) \<and>
    build_all_attr m = None \<and> sys_modules rt modname = None \<longrightarrow>
      alerts (build_click env st) = alerts st @ [BuildFailed (PythonError AttributeError)] \<and>
      engine_calls (build_click env st) = engine_calls st) \<and>
   (fileInput st = Some fl \<and> fl \<noteq> [] \<and> pyodide st = Some rt \<and>
    engine_source env rt = Some src \<and> exec_module env src = (m, None) \<and>
    build_all_attr m = Some eng \<longrightarrow>
      engine_calls (build_click env st) =
        engine_calls st @
          [[filesToPyTuples fl, PyStr (target_date_py (dateEl st)), settings_py (SETTINGS st)]] \<and>
      (eng [filesToPyTuples fl, PyStr (target_date_py (dateEl st)), settings_py (SETTINGS st)]
         = Inl pe \<longrightarrow>
       alerts (build_click env st) = alerts st @ [BuildFailed (PythonError pe)]))"
proof (intro conjI)
  show "boot_pc st0 = NotStarted \<longrightarrow>
      booted (boot_settings r (boot_pyodide (Some rt0) (boot_start st0)))"
    by (simp add: full_boot_booted)
  show "booted st \<longrightarrow> booted (run_events env st evs)"
    by (simp add: run_events_booted)
  show "booted st \<and> pyodide st = Some rt \<and> sys_path env = ds @ d # rest \<and>
    path_join d (modname @ ''.py'') = engine_path \<and>
    (\<forall>x\<in>set ds. fs rt (path_join x (modname @ ''.py'')) = None) \<longrightarrow>
      engine_source env rt = Some placeholder"
    using booted_source [of st rt env ds d rest] by blast
  show "engine_path \<notin> set (map (\<lambda>d. path_join d (modname @ ''.py'')) (sys_path env)) \<longrightarrow>
      engine_source env (rt\<lparr>fs := (fs rt)(engine_path := x)\<rparr>) = engine_source env rt"
    using source_indep [of env rt x] by blast
  show "engine_source env rt = Some src \<longrightarrow>
      snd (load_engine_module env rt) =
        (case exec_module env src of
           (m, Some e) \<Rightarrow> Inl e
         | (m, None) \<Rightarrow>
             Inr (case sys_modules rt modname of
                    None \<Rightarrow> m
                  | Some old \<Rightarrow>
                      PyModule (case build_all_attr m of
                                  None \<Rightarrow> build_all_attr old | Some f \<Rightarrow> Some f)))"
    using load_from_source [of env rt src] by blast
  show "fileInput st = Some fl \<and> fl \<noteq> [] \<and> pyodide st = Some rt \<and>
    engine_source env rt = None \<longrightarrow>
      alerts (build_click env st) =
        alerts st @ [BuildFailed (PythonError ModuleNotFoundError)] \<and>
      engine_calls (build_click env st) = engine_calls st"
    using build_click_no_source [of st fl rt env] by blast
  show "fileInput st = Some fl \<and> fl \<noteq> [] \<and> pyodide st = Some rt \<and>
    engine_source env rt = Some src \<and> exec_module env src = (m, Some e) \<longrightarrow>
      alerts (build_click env st) = alerts st @ [BuildFailed (PythonError e)] \<and>
      engine_calls (build_click env st) = engine_calls st"
    using build_click_source_raises [of st fl rt env src m e] by blast
  show "fileInput st = Some fl \<and> fl \<noteq> [] \<and> pyodide st = Some rt \<and>
    engine_source env rt = Some src \<and> exec_module env src = (m, None) \<and>
    build_all_attr m = None \<and> sys_modules rt modname = None \<longrightarrow>
      alerts (build_click env st) = alerts st @ [BuildFailed (PythonError AttributeError)] \<and>
      engine_calls (build_click env st) = engine_calls st"
    using build_click_no_attr [of st fl rt env src m] by blast
  show "fileInput st = Some fl \<and> fl \<noteq> [] \<and> pyodide st = Some rt \<and>
    engine_source env rt = Some src \<and> exec_module env src = (m, None) \<and>
    build_all_attr m = Some eng \<longrightarrow>
      engine_calls (build_click env st) =
        engine_calls st @
          [[filesToPyTuples fl, PyStr (target_date_py (dateEl st)), settings_py (SETTINGS st)]] \<and>
      (eng [filesToPyTuples fl, PyStr (target_date_py (dateEl st)), settings_py (SETTINGS st)]
         = Inl pe \<longrightarrow>
       alerts (build_click env st) = alerts st @ [BuildFailed (PythonError pe)])"
    using build_click_source_runs [of st fl rt env src m eng pe] by blast
qed

theorem C10_placeholder_module_witness:
  "boot_pc fresh_page = NotStarted \<and>
   fs bundled_runtime engine_path = Some ''def build_all(*args): ...'' \<and>
   booted (boot_settings FetchRejected (boot_pyodide (Some bundled_runtime) (boot_start fresh_page))) \<and>
   booted example_app \<and>
   booted (run_events example_py_env example_app [BuildClick, ResetClick, BuildClick]) \<and>
   sys_path example_py_env = [] @ ''/'' # [] \<and>
   path_join ''/'' (modname @ ''.py'') = engine_path \<and>
   map_option (engine_source example_py_env) (pyodide example_app) = Some (Some placeholder) \<and>
   map_option (\<lambda>rt. snd (load_engine_module example_py_env rt)) (pyodide example_app) =
     Some (Inr (PyModule (Some example_engine))) \<and>
   fileInput example_app = Some example_files \<and>
   map files_count (engine_calls (build_click example_py_env example_app)) = [1] \<and>
   alerts (build_click raising_py_env example_app) = [BuildFailed (PythonError NameError)] \<and>
   alerts (build_click (example_py_env\<lparr>exec_module := (\<lambda>src. (PyModule None, None))\<rparr>)
             example_app) = [BuildFailed (PythonError AttributeError)] \<and>
   alerts (build_click failing_py_env example_app) =
     [BuildFailed (PythonError (Raised ''roster.csv: column eid is missing''))] \<and>
   engine_source home_py_env (home_runtime\<lparr>fs := (fs home_runtime)(engine_path \<mapsto> placeholder)\<rparr>) =
     Some bundled_text \<and>
   map_option (engine_source home_py_env) (pyodide (home_app fresh_runtime)) = Some None \<and>
   alerts (build_click home_py_env (home_app fresh_runtime)) =
     [BuildFailed (PythonError ModuleNotFoundError)]"
  using C10_placeholder_module [where ?st0.0 = fresh_page and r = FetchRejected
      and ?rt0.0 = bundled_runtime and st = example_app and env = example_py_env
      and evs = "[BuildClick, ResetClick, BuildClick]"
      and rt = "fresh_runtime\<lparr>fs := [engine_path \<mapsto> placeholder]\<rparr>"
      and ds = "[]" and d = "''/''" and rest = "[]" and src = placeholder
      and fl = example_files and m = "PyModule (Some example_engine)" and eng = example_engine]
    C10_placeholder_module [where st = example_app and env = raising_py_env
      and rt = "fresh_runtime\<lparr>fs := [engine_path \<mapsto> placeholder]\<rparr>"
      and src = placeholder and fl = example_files and m = "PyModule None" and e = NameError]
    C10_placeholder_module [where st = example_app
      and env = "example_py_env\<lparr>exec_module := (\<lambda>src. (PyModule None, None))\<rparr>"
      and rt = "fresh_runtime\<lparr>fs := [engine_path \<mapsto> placeholder]\<rparr>"
      and src = placeholder and fl = example_files and m = "PyModule None"]
    C10_placeholder_module [where st = example_app and env = failing_py_env
      and rt = "fresh_runtime\<lparr>fs := [engine_path \<mapsto> placeholder]\<rparr>"
      and src = placeholder and fl = example_files and m = "PyModule (Some failing_engine)"
      and eng = failing_engine and pe = "Raised ''roster.csv: column eid is missing''"]
    C10_placeholder_module [where st = "home_app fresh_runtime" and env = home_py_env
      and rt = "fresh_runtime\<lparr>fs := [engine_path \<mapsto> placeholder]\<rparr>"
      and fl = example_files]
    C10_placeholder_module [where env = home_py_env and rt = home_runtime
      and x = "Some placeholder"]
  by (simp add: booted_def example_defs app_defs js_defs)

text \<open>
  The claim as stated fails, in two ways. A build clicked while \<open>boot\<close> awaits
  settings.json runs its Python program before the file is written; here the import
  finds no module. And on a search path without the root directory the written file is
  not what a build executes: after a full boot the build finds no module at all, and
  with an engine bundled in the home directory it runs that engine.
\<close>

theorem C10_counterexample:
  "boot_pc (run_events example_py_env fresh_page early_click_events) = AwaitSettings \<and>
   map_option (\<lambda>rt. fs rt engine_path)
     (pyodide (run_events example_py_env fresh_page early_click_events)) = Some None \<and>
   logEl (run_events example_py_env fresh_page early_click_events) =
     Some [LoadingPyodide, PyodideReady, Building,
           ErrorMsg (PythonError ModuleNotFoundError)] \<and>
   booted (home_app fresh_runtime) \<and>
   map_option (\<lambda>rt. fs rt engine_path) (pyodide (home_app fresh_runtime)) =
     Some (Some placeholder) \<and>
   alerts (build_click home_py_env (home_app fresh_runtime)) =
     [BuildFailed (PythonError ModuleNotFoundError)] \<and>
   engine_calls (build_click home_py_env (home_app fresh_runtime)) = [] \<and>
   booted (home_app home_runtime) \<and>
   map_option (\<lambda>rt. fs rt engine_path) (pyodide (home_app home_runtime)) =
     Some (Some placeholder) \<and>
   map_option (engine_source home_py_env) (pyodide (home_app home_runtime)) =
     Some (Some bundled_text) \<and>
   alerts (build_click home_py_env (home_app home_runtime)) = [] \<and>
   map files_count (engine_calls (build_click home_py_env (home_app home_runtime))) = [1] \<and>
   length (results_logged (console (build_click home_py_env (home_app home_runtime)))) = 1"
  by (simp add: booted_def example_defs app_defs js_defs)


section \<open>Properties of the Aggregation Engine\<close>

subsection \<open>Counting by groups\<close>

lemma indicator_sum:
  "distinct ks \<Longrightarrow> k0 \<in> set ks \<Longrightarrow> (\<Sum>k\<leftarrow>ks. if k0 = k then 1 else 0) = (1::nat)"
  by (induction ks) auto

lemma group_count:
  "distinct ks \<Longrightarrow> (\<forall>x\<in>set xs. P x \<longrightarrow> f x \<in> set ks) \<Longrightarrow>
     (\<Sum>k\<leftarrow>ks. length (filter (\<lambda>x. f x = k \<and> P x) xs)) = length (filter P xs)"
proof (induction xs)
  case Nil
  then show ?case by simp
next
  case (Cons x xs)
  let ?ind = "\<lambda>k. if f x = k \<and> P x then 1 else (0::nat)"
  let ?cnt = "\<lambda>k. length (filter (\<lambda>y. f y = k \<and> P y) xs)"
  have "map (\<lambda>k. length (filter (\<lambda>y. f y = k \<and> P y) (x # xs))) ks = map (\<lambda>k. ?ind k + ?cnt k) ks"
    by simp
  then have "(\<Sum>k\<leftarrow>ks. length (filter (\<lambda>y. f y = k \<and> P y) (x # xs))) = (\<Sum>k\<leftarrow>ks. ?ind k + ?cnt k)"
    by (rule arg_cong)
  also have "\<dots> = (\<Sum>k\<leftarrow>ks. ?ind k) + (\<Sum>k\<leftarrow>ks. ?cnt k)"
    by (rule sum_list_addf)
  also from Cons have "(\<Sum>k\<leftarrow>ks. ?cnt k) = length (filter P xs)"
    by simp
  also have "(\<Sum>k\<leftarrow>ks. ?ind k) = (if P x then 1 else 0)"
  proof (cases "P x")
    case True
    with Cons.prems have "f x \<in> set ks" by simp
    with Cons.prems(1) have "(\<Sum>k\<leftarrow>ks. if f x = k then 1 else 0) = (1::nat)"
      by (simp add: indicator_sum)
    with True show ?thesis by simp
  next
    case False
    then show ?thesis by simp
  qed
  finally show ?case by simp
qed


lemma group_count_all:
  "distinct ks \<Longrightarrow> f ` set xs \<subseteq> set ks \<Longrightarrow>
     (\<Sum>k\<leftarrow>ks. length (filter (\<lambda>x. f x = k) xs)) = length xs"
  using group_count [of ks xs "\<lambda>x. True" f] by auto


subsection \<open>The scenarios, evaluated\<close>

lemma scenario_records:
  "all_records scenario_files =
     [scenario_record ''E1'' ''D1'' ''AMZN'' [] 20251004 None True,
      scenario_record ''E2'' ''D1'' ''TEMP'' [] 20251004 None False,
      scenario_record ''E3'' ''ZZ'' ''AMZN'' [] 20251004 None True,
      scenario_record ''E1'' ''D1'' ''AMZN'' ''SWAP'' 20251004 (Some 20251003) True,
      scenario_record ''E4'' ''D1'' ''TEMP'' ''VET'' 20251004 None True]"
  by (simp add: all_records_def scenario_files_def)

lemma scenario_buckets:
  "bucket (Some scenario_settings) Regular (all_records scenario_files) =
     [scenario_record ''E1'' ''D1'' ''AMZN'' [] 20251004 None True,
      scenario_record ''E2'' ''D1'' ''TEMP'' [] 20251004 None False]"
  "bucket (Some scenario_settings) VET (all_records scenario_files) =
     [scenario_record ''E4'' ''D1'' ''TEMP'' ''VET'' 20251004 None True]"
  "bucket (Some scenario_settings) VTO (all_records scenario_files) = []"
  "bucket (Some scenario_settings) Swap (all_records scenario_files) =
     [scenario_record ''E1'' ''D1'' ''AMZN'' ''SWAP'' 20251004 (Some 20251003) True]"
  "bucket (Some scenario_settings) Unknown (all_records scenario_files) =
     [scenario_record ''E3'' ''unknown'' ''AMZN'' [] 20251004 None True]"
  by (simp_all add: scenario_records bucket_def category_of_def normalize_def canonical_def
        table_of_def scenario_settings_def scenario_record_def)

lemma scenario_summary:
  "dept_summary (build scenario_files (Some scenario_settings) (Some 20251004)) =
     [(''D1'',
       \<lparr>regular_expected = [(''AMZN'', 1), (''TEMP'', 1)],
          regular_present = [(''AMZN'', 1), (''TEMP'', 0)],
          swap_out = 0, swap_in_expected = 1, swap_in_present = 1,
          vet_accept = 1, vet_present = 1, vto_accept = 0\<rparr>)]"
  by (simp add: build_def Let_def scenario_buckets effective_date_def)
     (simp add: summarize_def by_type_def count_where_def on_date_def scenario_record_def Let_def)

lemma scenario_regular:
  "regular_for_date scenario_files (Some scenario_settings) (Some 20251004) =
     [scenario_record ''E1'' ''D1'' ''AMZN'' [] 20251004 None True,
      scenario_record ''E2'' ''D1'' ''TEMP'' [] 20251004 None False]"
  by (simp add: regular_for_date_def scenario_buckets effective_date_def on_date_def
        scenario_record_def)

subsection \<open>Reconciliation\<close>

lemma by_type_total:
  "set counted \<subseteq> set rs \<Longrightarrow> sum_list (map snd (by_type rs counted)) = length counted"
proof -
  assume sub: "set counted \<subseteq> set rs"
  have "sum_list (map snd (by_type rs counted)) =
      (\<Sum>t\<leftarrow>remdups (map employment_type rs). length (filter (\<lambda>r. employment_type r = t) counted))"
    by (simp add: by_type_def count_where_def comp_def)
  also have "\<dots> = length counted"
    using sub by (intro group_count_all) auto
  finally show ?thesis .
qed

lemma filter_conj_le: "length (filter (\<lambda>x. Q x \<and> R x) xs) \<le> length (filter R xs)"
  by (induction xs) auto

lemma filter_conj_le2: "length (filter (\<lambda>x. R x \<and> Q x) xs) \<le> length (filter R xs)"
  by (induction xs) auto

lemma by_type_le:
  "list_all2 (\<lambda>p e. fst p = fst e \<and> snd p \<le> snd e) (by_type rs (filter Q c)) (by_type rs c)"
  by (simp add: by_type_def count_where_def list_all2_map1 list_all2_map2 list_all2_same
        filter_conj_le)

lemma summarize_present_total:
  "regular_present_total (summarize d regular vet vto swap dept) =
     length (filter (\<lambda>r. dept_id r = dept \<and> present r) (on_date d regular))"
proof -
  let ?reg = "filter (\<lambda>r. dept_id r = dept) (on_date d regular)"
  have "regular_present_total (summarize d regular vet vto swap dept) =
      sum_list (map snd (by_type ?reg (filter present ?reg)))"
    by (simp add: regular_present_total_def summarize_def Let_def)
  also have "\<dots> = length (filter present ?reg)"
    by (rule by_type_total) auto
  also have "\<dots> = length (filter (\<lambda>r. dept_id r = dept \<and> present r) (on_date d regular))"
    by simp
  finally show ?thesis .
qed

lemma summarize_expected_total:
  "regular_expected_total (summarize d regular vet vto swap dept) =
     length (filter (\<lambda>r. dept_id r = dept) (on_date d regular))"
  by (simp add: regular_expected_total_def summarize_def Let_def by_type_total)

lemma summarize_le:
  "list_all2 (\<lambda>p e. fst p = fst e \<and> snd p \<le> snd e)
     (regular_present (summarize d regular vet vto swap dept))
     (regular_expected (summarize d regular vet vto swap dept))"
  by (simp add: summarize_def Let_def by_type_le del: filter_filter)

lemma summarize_total_le:
  "regular_present_total (summarize d regular vet vto swap dept) \<le>
     regular_expected_total (summarize d regular vet vto swap dept)"
  by (simp add: summarize_present_total summarize_expected_total filter_conj_le2)

lemma build_dept_summary:
  "dept_summary (build files settings target) =
     map (\<lambda>dept. (dept, summarize (effective_date target (all_records files))
                      (bucket settings Regular (all_records files))
                      (bucket settings VET (all_records files))
                      (bucket settings VTO (all_records files))
                      (bucket settings Swap (all_records files)) dept))
       (remdups (map dept_id (bucket settings Regular (all_records files) @
                              bucket settings VET (all_records files) @
                              bucket settings VTO (all_records files) @
                              bucket settings Swap (all_records files))))"
  by (simp add: build_def Let_def)

lemma present_sum:
  "(\<Sum>p\<leftarrow>dept_summary (build files settings target). regular_present_total (snd p)) =
     length (filter present (regular_for_date files settings target))"
proof -
  let ?rs = "all_records files"
  let ?d = "effective_date target ?rs"
  let ?reg = "bucket settings Regular ?rs"
  let ?depts = "remdups (map dept_id (?reg @ bucket settings VET ?rs @ bucket settings VTO ?rs @
                   bucket settings Swap ?rs))"
  have "(\<Sum>p\<leftarrow>dept_summary (build files settings target). regular_present_total (snd p)) =
      (\<Sum>dept\<leftarrow>?depts. length (filter (\<lambda>r. dept_id r = dept \<and> present r) (on_date ?d ?reg)))"
    by (simp add: build_dept_summary comp_def summarize_present_total)
  also have "\<dots> = length (filter present (on_date ?d ?reg))"
    by (rule group_count) (auto simp: on_date_def)
  finally show ?thesis by (simp add: regular_for_date_def)
qed


lemma summary_rows_le:
  "p \<in> set (dept_summary (build files settings target)) \<Longrightarrow>
     list_all2 (\<lambda>a e. fst a = fst e \<and> snd a \<le> snd e)
       (regular_present (snd p)) (regular_expected (snd p)) \<and>
     regular_present_total (snd p) \<le> regular_expected_total (snd p)"
  by (auto simp: build_dept_summary summarize_le summarize_total_le)


text \<open>
  C6. In every result of the modelled engine, for every department and every
  employment type the regular present count is at most the regular expected count, so
  also in total per department; and the per-department regular present counts, summed
  over all departments of the summary, give the number of presence-flagged regular
  attendance records for the target date.
\<close>

theorem C6_reconciliation:
  "(\<forall>p \<in> set (dept_summary (build files settings target)).
      list_all2 (\<lambda>a e. fst a = fst e \<and> snd a \<le> snd e)
        (regular_present (snd p)) (regular_expected (snd p)) \<and>
      regular_present_total (snd p) \<le> regular_expected_total (snd p)) \<and>
   (\<Sum>p\<leftarrow>dept_summary (build files settings target). regular_present_total (snd p)) =
     length (filter present (regular_for_date files settings target))"
  using summary_rows_le [of _ files settings target] present_sum [of files settings target]
  by blast

theorem C6_reconciliation_witness:
  "map (\<lambda>p. (fst p, regular_expected (snd p), regular_present (snd p)))
     (dept_summary (build scenario_files (Some scenario_settings) (Some 20251004))) =
     [(''D1'', [(''AMZN'', 1), (''TEMP'', 1)], [(''AMZN'', 1), (''TEMP'', 0)])] \<and>
   map (\<lambda>p. (regular_present_total (snd p), regular_expected_total (snd p)))
     (dept_summary (build scenario_files (Some scenario_settings) (Some 20251004))) =
     [(1, 2)] \<and>
   length (filter present
     (regular_for_date scenario_files (Some scenario_settings) (Some 20251004))) = 1"
proof -
  let ?res = "build scenario_files (Some scenario_settings) (Some 20251004)"
  have rows: "map (\<lambda>p. (fst p, regular_expected (snd p), regular_present (snd p)))
      (dept_summary ?res) =
      [(''D1'', [(''AMZN'', 1), (''TEMP'', 1)], [(''AMZN'', 1), (''TEMP'', 0)])]"
    by (simp add: scenario_summary)
  have totals: "map (\<lambda>p. (regular_present_total (snd p), regular_expected_total (snd p)))
      (dept_summary ?res) = [(1, 2)]"
    by (simp add: scenario_summary regular_present_total_def regular_expected_total_def)
  have "(\<Sum>p\<leftarrow>dept_summary ?res. regular_present_total (snd p)) = 1"
    by (simp add: scenario_summary regular_present_total_def)
  with C6_reconciliation [of scenario_files "Some scenario_settings" "Some 20251004"]
  have "length (filter present
      (regular_for_date scenario_files (Some scenario_settings) (Some 20251004))) = 1"
    by simp
  with rows totals show ?thesis by blast
qed

end
